theory Spec2Isabelle
  imports Main "HOL-Library.Word"
begin

section \<open>JavaScript values used by the site's scripts\<close>

text \<open>
  A JavaScript string is a sequence of UTF-16 code units: \<open>length\<close>, \<open>trim\<close> and the
  regular expression of \<open>validateField\<close> all count code units. Strings are therefore
  lists of 16-bit words; \<open>ascii\<close> writes a literal. Names that the scripts only compare
  with literals of their own (tag names, the \<open>type\<close> property, class names, selectors,
  URLs) are Isabelle strings.
\<close>

type_synonym jstr = "16 word list"

definition ascii :: "string \<Rightarrow> jstr" where
  "ascii s = map of_char s"

text \<open>The code units that \<open>trim\<close> removes and \<open>\s\<close> matches: ECMAScript's WhiteSpace
  and LineTerminator.\<close>

definition is_ws :: "16 word \<Rightarrow> bool" where
  "is_ws c = (c = 0x09 \<or> c = 0x0A \<or> c = 0x0B \<or> c = 0x0C \<or> c = 0x0D \<or> c = 0x20
     \<or> c = 0xA0 \<or> c = 0x1680 \<or> (0x2000 \<le> c \<and> c \<le> 0x200A) \<or> c = 0x2028 \<or> c = 0x2029
     \<or> c = 0x202F \<or> c = 0x205F \<or> c = 0x3000 \<or> c = 0xFEFF)"

definition trim :: "jstr \<Rightarrow> jstr" where
  "trim s = rev (dropWhile is_ws (rev (dropWhile is_ws s)))"

definition startsWith :: "jstr \<Rightarrow> jstr \<Rightarrow> bool" where
  "startsWith s p = (take (length p) s = p)"

fun js_includes :: "jstr \<Rightarrow> jstr \<Rightarrow> bool" where
  "js_includes [] p = (p = [])"
| "js_includes (c # s) p = (take (length p) (c # s) = p \<or> js_includes s p)"

text \<open>ASCII lower case, as \<open>getAttribute\<close> applies it to the name it is given.\<close>

definition lower :: "16 word \<Rightarrow> 16 word" where
  "lower c = (if 0x41 \<le> c \<and> c \<le> 0x5A then c + 0x20 else c)"

text \<open>\<open>if (v)\<close> on a value that is a string, \<open>null\<close> or \<open>undefined\<close>: only a non-empty
  string passes.\<close>

definition truthy :: "jstr option \<Rightarrow> bool" where
  "truthy v = (case v of None \<Rightarrow> False | Some s \<Rightarrow> s \<noteq> [])"

text \<open>
  Exceptions of the scripts: a property read on \<open>undefined\<close> or \<open>null\<close>, and a storage
  access that the browser refuses. A call either returns a value in a new state or
  throws in the state it had reached.
\<close>

datatype js_error = TypeError | StorageError

datatype ('a, 's) result = Return 'a 's | Throw js_error 's

text \<open>
  Reading \<open>obj[key]\<close> on an object literal: an own property, else a member inherited from
  \<open>Object.prototype\<close> (a function or object, never a string), else \<open>undefined\<close>.
\<close>

definition object_prototype_names :: "jstr list" where
  "object_prototype_names = map ascii
     [''constructor'', ''hasOwnProperty'', ''isPrototypeOf'', ''propertyIsEnumerable'',
      ''toLocaleString'', ''toString'', ''valueOf'', ''__proto__'', ''__defineGetter__'',
      ''__defineSetter__'', ''__lookupGetter__'', ''__lookupSetter__'']"

datatype 'a lookup = Own 'a | Inherited | Absent

definition js_get :: "(jstr \<times> 'a) list \<Rightarrow> jstr \<Rightarrow> 'a lookup" where
  "js_get obj k =
     (case map_of obj k of
        Some v \<Rightarrow> Own v
      | None \<Rightarrow> if k \<in> set object_prototype_names then Inherited else Absent)"

text \<open>
  The numbers of the gallery cursor are integers or \<open>NaN\<close>. \<open>%\<close> is the remainder
  that takes the sign of the dividend, and is \<open>NaN\<close> for a zero divisor. Negative zero
  is not told apart from zero: as an array index the two are the same.
\<close>

datatype jsnum = Num int | NaN

fun js_add :: "jsnum \<Rightarrow> jsnum \<Rightarrow> jsnum" where
  "js_add (Num a) (Num b) = Num (a + b)"
| "js_add _ _ = NaN"

fun js_sub :: "jsnum \<Rightarrow> jsnum \<Rightarrow> jsnum" where
  "js_sub (Num a) (Num b) = Num (a - b)"
| "js_sub _ _ = NaN"

fun js_rem :: "jsnum \<Rightarrow> jsnum \<Rightarrow> jsnum" where
  "js_rem (Num a) (Num b) = (if b = 0 then NaN else Num (sgn a * (\<bar>a\<bar> mod \<bar>b\<bar>)))"
| "js_rem _ _ = NaN"

text \<open>\<open>xs[i]\<close>: \<open>undefined\<close> (here \<open>None\<close>) outside the array and at \<open>NaN\<close>.\<close>

fun js_index :: "'a list \<Rightarrow> jsnum \<Rightarrow> 'a option" where
  "js_index xs (Num i) = (if 0 \<le> i \<and> i < int (length xs) then Some (xs ! nat i) else None)"
| "js_index xs NaN = None"

section \<open>The browser: storage and elements\<close>

text \<open>
  \<open>localStorage\<close>: its entries, and whether the browser refuses reads or writes (storage
  disabled, private mode, quota). A refused access throws.
\<close>

record storage =
  items :: "jstr \<rightharpoonup> jstr"
  get_throws :: bool
  set_throws :: bool

definition getItem :: "storage \<Rightarrow> jstr \<Rightarrow> js_error + jstr option" where
  "getItem s k = (if get_throws s then Inl StorageError else Inr (items s k))"

definition setItem :: "storage \<Rightarrow> jstr \<Rightarrow> jstr \<Rightarrow> js_error + storage" where
  "setItem s k v =
     (if set_throws s then Inl StorageError else Inr (s\<lparr>items := (items s)(k \<mapsto> v)\<rparr>))"

text \<open>
  An element of the document. \<open>content\<close> is its text, or what was last assigned to it as
  \<open>textContent\<close> or as \<open>innerHTML\<close>; \<open>placeholder\<close> is the attribute of that name.
  \<open>in_select\<close> marks an element inside a \<open>select\<close>, \<open>in_lang_selector\<close> one inside
  \<open>.lang-selector\<close>.
\<close>

datatype content = Text jstr | Html jstr

record element =
  tagName :: string
  elem_type :: string
  attrs :: "jstr \<rightharpoonup> jstr"
  content :: content
  classes :: "string set"
  in_select :: bool
  in_lang_selector :: bool

text \<open>
  A node of the document: an element with the elements directly inside it, in document
  order. A document is a list of nodes, none of them inside another.
\<close>

datatype node = Node (elem: element) (children: "node list")

definition getAttribute :: "(jstr \<rightharpoonup> jstr) \<Rightarrow> jstr \<Rightarrow> jstr option" where
  "getAttribute as n = as (map lower n)"

definition setAttribute :: "element \<Rightarrow> jstr \<Rightarrow> jstr \<Rightarrow> element" where
  "setAttribute e n v = e\<lparr>attrs := (attrs e)(map lower n \<mapsto> v)\<rparr>"

definition hasAttribute :: "element \<Rightarrow> jstr \<Rightarrow> bool" where
  "hasAttribute e n = (attrs e n \<noteq> None)"

text \<open>
  Assigning \<open>textContent\<close> or \<open>innerHTML\<close> replaces everything the element contains: the
  elements inside it leave the document. Markup assigned as \<open>innerHTML\<close> is kept as the
  string it is. Assigning an attribute or toggling a class leaves what the element contains
  in place.
\<close>

definition set_textContent :: "node \<Rightarrow> jstr \<Rightarrow> node" where
  "set_textContent n t = Node ((elem n)\<lparr>content := Text t\<rparr>) []"

definition set_innerHTML :: "node \<Rightarrow> jstr \<Rightarrow> node" where
  "set_innerHTML n t = Node ((elem n)\<lparr>content := Html t\<rparr>) []"

definition set_attribute :: "node \<Rightarrow> jstr \<Rightarrow> jstr \<Rightarrow> node" where
  "set_attribute n k v = Node (setAttribute (elem n) k v) (children n)"

definition classList_toggle :: "node \<Rightarrow> string \<Rightarrow> bool \<Rightarrow> node" where
  "classList_toggle n c force =
     Node ((elem n)\<lparr>classes := (if force then insert c (classes (elem n))
                                else classes (elem n) - {c})\<rparr>)
          (children n)"

text \<open>
  \<open>querySelectorAll(sel).forEach(f)\<close>, on a node and what it contains. The list of matches
  is made before \<open>f\<close> is first called, so \<open>f\<close> is called on every match, also on one that an
  earlier call has taken out of the document when it replaced the content of an element
  around it. The callbacks of the two scripts read and write nothing but the element they
  are given, so the document they leave does not depend on the order of the calls; here
  the matches inside an element come before the element.
\<close>

fun forEach :: "(element \<Rightarrow> bool) \<Rightarrow> (node \<Rightarrow> node) \<Rightarrow> node \<Rightarrow> node" where
  "forEach sel f (Node e cs) =
     (let n = Node e (map (forEach sel f) cs) in if sel e then f n else n)"

datatype console_entry = Log jstr | Warn jstr | Error jstr

section \<open>app.js: the gallery lightbox\<close>

text \<open>
  An entry of \<open>galleryImages\<close> holds what \<open>updateGalleryData\<close> read: the \<open>data-src\<close>
  attribute (\<open>null\<close> when the item has none) and the caption.
\<close>

record image =
  src :: "jstr option"
  caption :: jstr

text \<open>The \<open>.lightbox-img\<close> element: the values last assigned to \<open>src\<close> and \<open>alt\<close>.\<close>

record img_element =
  img_src :: "jstr option"
  img_alt :: jstr

text \<open>
  The gallery's variables: \<open>galleryImages\<close>, \<open>currentImageIndex\<close>, and the two lightbox
  elements found by \<open>querySelector\<close> (\<open>None\<close> when the page has none); for the caption
  element its \<open>textContent\<close>.
\<close>

record gallery =
  galleryImages :: "image list"
  currentImageIndex :: jsnum
  lightboxImg :: "img_element option"
  lightboxCaption :: "jstr option"

definition showLightboxImage :: "gallery \<Rightarrow> (unit, gallery) result" where
  "showLightboxImage g =
     (if 0 < length (galleryImages g) \<and> lightboxImg g \<noteq> None \<and> lightboxCaption g \<noteq> None
      then (case js_index (galleryImages g) (currentImageIndex g) of
              None \<Rightarrow> Throw TypeError g
            | Some im \<Rightarrow>
                Return () (g\<lparr>lightboxImg := Some \<lparr>img_src = src im, img_alt = caption im\<rparr>,
                             lightboxCaption := Some (caption im)\<rparr>))
      else Return () g)"

text \<open>The click handlers of \<open>.lightbox-prev\<close> and \<open>.lightbox-next\<close>.\<close>

definition lightboxPrev_click :: "gallery \<Rightarrow> (unit, gallery) result" where
  "lightboxPrev_click g =
     (let n = Num (int (length (galleryImages g)))
      in showLightboxImage
           (g\<lparr>currentImageIndex := js_rem (js_add (js_sub (currentImageIndex g) (Num 1)) n) n\<rparr>))"

definition lightboxNext_click :: "gallery \<Rightarrow> (unit, gallery) result" where
  "lightboxNext_click g =
     (let n = Num (int (length (galleryImages g)))
      in showLightboxImage
           (g\<lparr>currentImageIndex := js_rem (js_add (currentImageIndex g) (Num 1)) n\<rparr>))"

text \<open>A handler run \<open>k\<close> times in a row; an exception ends the run.\<close>

fun clicks :: "nat \<Rightarrow> (gallery \<Rightarrow> (unit, gallery) result) \<Rightarrow> gallery \<Rightarrow> (unit, gallery) result" where
  "clicks 0 h g = Return () g"
| "clicks (Suc k) h g = (case h g of Throw e g' \<Rightarrow> Throw e g' | Return _ g' \<Rightarrow> clicks k h g')"

text \<open>
  A \<open>.gallery-item\<close>: its attributes and its first \<open>.gallery-caption\<close> descendant, if any
  (attributes and \<open>textContent\<close>).
\<close>

record caption_element =
  caption_attrs :: "jstr \<rightharpoonup> jstr"
  caption_text :: jstr

record gallery_item =
  item_attrs :: "jstr \<rightharpoonup> jstr"
  gallery_caption :: "caption_element option"

definition item_caption :: "jstr \<Rightarrow> gallery_item \<Rightarrow> jstr" where
  "item_caption lang it =
     (let a = getAttribute (item_attrs it) (ascii ''data-caption-'' @ lang);
          b = (case gallery_caption it of
                 None \<Rightarrow> None
               | Some c \<Rightarrow> getAttribute (caption_attrs c) (ascii ''data-'' @ lang));
          c = (case gallery_caption it of None \<Rightarrow> None | Some c \<Rightarrow> Some (caption_text c))
      in if truthy a then the a
         else if truthy b then the b
         else if truthy c then the c
         else if lang = ascii ''ar'' then [0x0635, 0x0648, 0x0631, 0x0629, 0x0020, 0x0627, 0x0644, 0x0645, 0x0639, 0x0631, 0x0636]
         else ascii ''Gallery Image'')"

definition gallery_data :: "jstr \<Rightarrow> gallery_item list \<Rightarrow> image list" where
  "gallery_data lang its =
     map (\<lambda>it. \<lparr>src = getAttribute (item_attrs it) (ascii ''data-src''),
                caption = item_caption lang it\<rparr>) its"

section \<open>app.js: the language manager\<close>

text \<open>Callbacks waiting in \<open>setTimeout\<close>: the delayed body of \<open>switchLanguage\<close> and the
  removal of the \<open>lang-switching\<close> class.\<close>

datatype task = SwitchTask jstr | RemoveSwitchingTask

text \<open>
  The state app.js works on: the fields of the \<open>LanguageManager\<close> (\<open>currentLang\<close>,
  \<open>isRTL\<close>), the document (the \<open>lang\<close> and \<open>dir\<close> attributes of \<open>html\<close>, the title, the
  elements, the text of \<open>#lang-text\<close> when the page has one, the classes of \<open>body\<close>), the
  browser (\<open>localStorage\<close>, \<open>navigator\<close>, the console, the pending timers with their due
  times), the gallery, and the \<open>languageChanged\<close> events dispatched so far.
  \<open>applied\<close> records the calls of \<open>applyLanguage\<close>; the script never reads it.
\<close>

record app_state =
  currentLang :: jstr
  isRTL :: bool
  html_lang :: "jstr option"
  html_dir :: "jstr option"
  title :: jstr
  elements :: "node list"
  lang_text :: "jstr option"
  body_classes :: "string set"
  localStorage :: storage
  navigator_language :: "jstr option"
  navigator_userLanguage :: "jstr option"
  console :: "console_entry list"
  clock :: nat
  timers :: "(nat \<times> task) list"
  galleryItems :: "gallery_item list"
  lightbox :: gallery
  dispatched :: "(jstr \<times> bool) list"
  applied :: "jstr list"

definition getStoredLanguage :: "app_state \<Rightarrow> jstr option" where
  "getStoredLanguage st =
     (case getItem (localStorage st) (ascii ''pharmacy-club-language'') of
        Inl e \<Rightarrow> None
      | Inr v \<Rightarrow> v)"

definition setStoredLanguage :: "jstr \<Rightarrow> app_state \<Rightarrow> app_state" where
  "setStoredLanguage lang st =
     (case setItem (localStorage st) (ascii ''pharmacy-club-language'') lang of
        Inl e \<Rightarrow> st\<lparr>console := console st @ [Warn (ascii ''Could not save language preference'')]\<rparr>
      | Inr s \<Rightarrow> st\<lparr>localStorage := s\<rparr>)"

text \<open>\<open>navigator.language || navigator.userLanguage\<close>, then \<open>startsWith\<close> on the result:
  a \<open>TypeError\<close> when neither is there.\<close>

definition detectBrowserLanguage :: "app_state \<Rightarrow> js_error + jstr" where
  "detectBrowserLanguage st =
     (let browserLang = (if truthy (navigator_language st) then navigator_language st
                         else navigator_userLanguage st)
      in case browserLang of
           None \<Rightarrow> Inl TypeError
         | Some b \<Rightarrow> Inr (if startsWith b (ascii ''ar'') then ascii ''ar'' else ascii ''en''))"

text \<open>The selector \<open>[data-en][data-ar]\<close>.\<close>

definition has_both :: "element \<Rightarrow> bool" where
  "has_both e = (hasAttribute e (ascii ''data-en'') \<and> hasAttribute e (ascii ''data-ar''))"

text \<open>The body of the \<open>forEach\<close> in \<open>updateElementsWithDataAttributes\<close>, for one element.\<close>

definition update_element :: "jstr \<Rightarrow> node \<Rightarrow> node" where
  "update_element lang n =
     (case getAttribute (attrs (elem n)) (ascii ''data-'' @ lang) of
        None \<Rightarrow> n
      | Some text \<Rightarrow>
          if text = [] then n
          else if tagName (elem n) = ''INPUT'' \<and> elem_type (elem n) \<noteq> ''submit''
               then set_attribute n (ascii ''placeholder'') text
          else if tagName (elem n) = ''OPTION'' then set_textContent n text
          else if js_includes text (ascii ''<br>'') then set_innerHTML n text
          else set_textContent n text)"

definition updateElementsWithDataAttributes :: "jstr \<Rightarrow> app_state \<Rightarrow> app_state" where
  "updateElementsWithDataAttributes lang st =
     st\<lparr>elements := map (forEach has_both (update_element lang)) (elements st)\<rparr>"

text \<open>The body of the inner \<open>forEach\<close> in \<open>updateSelectOptions\<close>, for one option.\<close>

definition update_option :: "jstr \<Rightarrow> node \<Rightarrow> node" where
  "update_option lang n =
     (case getAttribute (attrs (elem n)) (ascii ''data-'' @ lang) of
        None \<Rightarrow> n
      | Some text \<Rightarrow> if text = [] then n else set_textContent n text)"

definition updateSelectOptions :: "jstr \<Rightarrow> app_state \<Rightarrow> app_state" where
  "updateSelectOptions lang st =
     st\<lparr>elements :=
          map (forEach (\<lambda>e. in_select e \<and> tagName e = ''OPTION'' \<and> has_both e)
                 (update_option lang))
              (elements st)\<rparr>"

definition title_ar :: jstr where
  "title_ar = [0x0646, 0x0627, 0x062F, 0x064A, 0x0020, 0x0627, 0x0644, 0x0635, 0x064A, 0x062F, 0x0644, 0x0629, 0x0020, 0x002D, 0x0020, 0x0627, 0x0644, 0x0643, 0x0644, 0x064A, 0x0629]"

definition applyLanguage :: "jstr \<Rightarrow> app_state \<Rightarrow> app_state" where
  "applyLanguage lang st =
     updateSelectOptions lang
       (updateElementsWithDataAttributes lang
          (st\<lparr>html_lang := Some lang,
               html_dir := Some (if lang = ascii ''ar'' then ascii ''rtl'' else ascii ''ltr''),
               title := (if lang = ascii ''ar'' then title_ar else ascii ''Pharmacy Club - College''),
               applied := applied st @ [lang]\<rparr>))"

definition updateLanguageButton :: "app_state \<Rightarrow> app_state" where
  "updateLanguageButton st =
     (case lang_text st of
        None \<Rightarrow> st
      | Some t \<Rightarrow>
          st\<lparr>lang_text := Some (if currentLang st = ascii ''en''
                                  then [0x0627, 0x0644, 0x0639, 0x0631, 0x0628, 0x064A, 0x0629]
                                  else ascii ''English'')\<rparr>)"

text \<open>\<open>updateGalleryData\<close> rebuilds \<open>galleryImages\<close> from the gallery items.\<close>

definition updateGalleryData :: "app_state \<Rightarrow> app_state" where
  "updateGalleryData st =
     st\<lparr>lightbox := (lightbox st)\<lparr>galleryImages := gallery_data (currentLang st) (galleryItems st)\<rparr>\<rparr>"

text \<open>
  The second listener of \<open>languageChanged\<close>: the placeholders of \<open>input[name="name"]\<close>,
  \<open>input[type="email"]\<close> and \<open>textarea[name="message"]\<close>, in this order. The selector matches
  the value of \<open>type\<close> without regard to ASCII case.
\<close>

definition set_placeholders :: "(element \<Rightarrow> bool) \<Rightarrow> jstr \<Rightarrow> node list \<Rightarrow> node list" where
  "set_placeholders sel text ns =
     map (forEach sel (\<lambda>n. set_attribute n (ascii ''placeholder'') text)) ns"

definition placeholders_listener :: "jstr \<Rightarrow> app_state \<Rightarrow> app_state" where
  "placeholders_listener lang st =
     (let ar = (lang = ascii ''ar'');
          es1 = set_placeholders
                  (\<lambda>e. tagName e = ''INPUT'' \<and> attrs e (ascii ''name'') = Some (ascii ''name''))
                  (if ar then [0x0623, 0x062F, 0x062E, 0x0644, 0x0020, 0x0627, 0x0633, 0x0645, 0x0643, 0x0020, 0x0627, 0x0644, 0x0643, 0x0627, 0x0645, 0x0644] else ascii ''Enter your full name'')
                  (elements st);
          es2 = set_placeholders
                  (\<lambda>e. tagName e = ''INPUT'' \<and>
                        map_option (map lower) (attrs e (ascii ''type'')) = Some (ascii ''email''))
                  (if ar then [0x0623, 0x062F, 0x062E, 0x0644, 0x0020, 0x0628, 0x0631, 0x064A, 0x062F, 0x0643, 0x0020, 0x0627, 0x0644, 0x0625, 0x0644, 0x0643, 0x062A, 0x0631, 0x0648, 0x0646, 0x064A] else ascii ''Enter your email address'')
                  es1;
          es3 = set_placeholders
                  (\<lambda>e. tagName e = ''TEXTAREA'' \<and> attrs e (ascii ''name'') = Some (ascii ''message''))
                  (if ar then [0x0627, 0x0643, 0x062A, 0x0628, 0x0020, 0x0631, 0x0633, 0x0627, 0x0644, 0x062A, 0x0643, 0x0020, 0x0647, 0x0646, 0x0627, 0x002E, 0x002E, 0x002E] else ascii ''Write your message here...'')
                  es2
      in st\<lparr>elements := es3\<rparr>)"

text \<open>\<open>window.dispatchEvent\<close> of \<open>languageChanged\<close> runs its two listeners in the order
  they were added.\<close>

definition dispatch_languageChanged :: "jstr \<Rightarrow> bool \<Rightarrow> app_state \<Rightarrow> app_state" where
  "dispatch_languageChanged lang rtl st =
     placeholders_listener lang
       (updateGalleryData (st\<lparr>dispatched := dispatched st @ [(lang, rtl)]\<rparr>))"

text \<open>\<open>setTimeout(f, d)\<close>.\<close>

definition setTimeout :: "task \<Rightarrow> nat \<Rightarrow> app_state \<Rightarrow> app_state" where
  "setTimeout t d st = st\<lparr>timers := timers st @ [(clock st + d, t)]\<rparr>"

definition switchLanguage :: "jstr \<Rightarrow> app_state \<Rightarrow> app_state" where
  "switchLanguage lang st =
     (if lang = currentLang st then st
      else setTimeout (SwitchTask lang) 150
             (st\<lparr>body_classes := insert ''lang-switching'' (body_classes st)\<rparr>))"

definition toggleLanguage :: "app_state \<Rightarrow> app_state" where
  "toggleLanguage st =
     (let newLang = (if currentLang st = ascii ''en'' then ascii ''ar'' else ascii ''en'')
      in switchLanguage newLang
           (st\<lparr>console := console st @
                  [Log (ascii ''Switching from '' @ currentLang st @ ascii '' to '' @ newLang)]\<rparr>))"

text \<open>The arrow function that \<open>switchLanguage\<close> hands to \<open>setTimeout\<close>.\<close>

definition switch_callback :: "jstr \<Rightarrow> app_state \<Rightarrow> app_state" where
  "switch_callback lang st =
     (let st1 = st\<lparr>currentLang := lang, isRTL := (lang = ascii ''ar'')\<rparr>;
          st2 = updateLanguageButton (applyLanguage lang st1);
          st3 = setStoredLanguage lang st2;
          st4 = setTimeout RemoveSwitchingTask 100 st3;
          st5 = updateGalleryData st4;
          st6 = dispatch_languageChanged lang (isRTL st5) st5
      in st6\<lparr>console := console st6 @ [Log (ascii ''Language switched to: '' @ lang)]\<rparr>)"

fun run_task :: "task \<Rightarrow> app_state \<Rightarrow> app_state" where
  "run_task (SwitchTask lang) st = switch_callback lang st"
| "run_task RemoveSwitchingTask st = st\<lparr>body_classes := body_classes st - {''lang-switching''}\<rparr>"

text \<open>The timer that fires next: the earliest due, the first set among equals.\<close>

definition next_timer :: "(nat \<times> task) list \<Rightarrow> ((nat \<times> task) \<times> (nat \<times> task) list) option" where
  "next_timer ts =
     (case find (\<lambda>t. list_all (\<lambda>u. fst t \<le> fst u) ts) ts of
        None \<Rightarrow> None
      | Some t \<Rightarrow> Some (t, remove1 t ts))"

text \<open>The constructor of \<open>LanguageManager\<close> with \<open>init\<close>. \<open>setupLanguageToggle\<close> only
  registers the click handler, which is \<open>toggleLanguage\<close>.\<close>

definition init :: "app_state \<Rightarrow> app_state" where
  "init st = updateLanguageButton (applyLanguage (currentLang st) st)"

definition LanguageManager_new :: "app_state \<Rightarrow> (unit, app_state) result" where
  "LanguageManager_new st =
     (let stored = getStoredLanguage st
      in if truthy stored
         then Return () (init (st\<lparr>currentLang := the stored, isRTL := (the stored = ascii ''ar'')\<rparr>))
         else (case detectBrowserLanguage st of
                 Inl e \<Rightarrow> Throw e st
               | Inr d \<Rightarrow>
                   let l = (if d \<noteq> [] then d else ascii ''en'')
                   in Return () (init (st\<lparr>currentLang := l, isRTL := (l = ascii ''ar'')\<rparr>))))"

text \<open>
  The event loop fires the pending timers one after the other until none is left. Every
  \<open>SwitchTask\<close> sets one \<open>RemoveSwitchingTask\<close> and that one sets nothing, which bounds
  the run.
\<close>

fun task_weight :: "task \<Rightarrow> nat" where
  "task_weight (SwitchTask l) = 2"
| "task_weight RemoveSwitchingTask = 1"

definition pending_weight :: "app_state \<Rightarrow> nat" where
  "pending_weight st = sum_list (map (\<lambda>t. task_weight (snd t)) (timers st))"

function run_timers :: "app_state \<Rightarrow> app_state" where
  "run_timers st =
     (case next_timer (timers st) of
        None \<Rightarrow> st
      | Some ((due, t), rest) \<Rightarrow>
          run_timers (run_task t (st\<lparr>clock := max (clock st) due, timers := rest\<rparr>)))"
  by pat_completeness auto
termination
proof (relation "measure pending_weight")
  show "wf (measure pending_weight)" by simp
next
  fix st :: app_state and x2 x1 rest due t
  assume "next_timer (timers st) = Some x2" "(x1, rest) = x2" "(due, t) = x1"
  then have nt: "next_timer (timers st) = Some ((due, t), rest)" by simp
  then have found: "find (\<lambda>t. list_all (\<lambda>u. fst t \<le> fst u) (timers st)) (timers st)
                      = Some (due, t)"
    and rest: "rest = remove1 (due, t) (timers st)"
    by (auto simp: next_timer_def split: option.splits)
  from found obtain i where "i < length (timers st)" and "timers st ! i = (due, t)"
    unfolding find_Some_iff by auto
  then have mem: "(due, t) \<in> set (timers st)"
    by (metis nth_mem)
  have "x \<in> set ts \<Longrightarrow> sum_list (map (\<lambda>t. task_weight (snd t)) ts)
          = task_weight (snd x) + sum_list (map (\<lambda>t. task_weight (snd t)) (remove1 x ts))"
    for x :: "nat \<times> task" and ts
    by (induction ts) auto
  from this [OF mem]
  have w: "pending_weight st = task_weight t + sum_list (map (\<lambda>t. task_weight (snd t)) rest)"
    by (simp add: pending_weight_def rest)
  have cb: "timers (switch_callback l s) = timers s @ [(clock s + 100, RemoveSwitchingTask)]"
    for l s
    by (cases "lang_text s")
       (simp_all add: switch_callback_def Let_def applyLanguage_def updateSelectOptions_def
          updateElementsWithDataAttributes_def updateLanguageButton_def setStoredLanguage_def
          setItem_def updateGalleryData_def dispatch_languageChanged_def
          placeholders_listener_def setTimeout_def)
  have "pending_weight (run_task t (st\<lparr>clock := max (clock st) due, timers := rest\<rparr>))
          < pending_weight st"
    unfolding w by (cases t) (simp_all add: pending_weight_def cb)
  then show "(run_task t (st\<lparr>clock := max (clock st) due, timers := rest\<rparr>), st)
               \<in> measure pending_weight"
    by simp
qed

section \<open>app.js: form validation\<close>

text \<open>
  A form field as \<open>validateField\<close> reads it: \<open>value\<close>, \<open>type\<close>, \<open>required\<close>, \<open>tagName\<close>
  and its class list. A \<open>form_group\<close> is the field with the \<open>.error-message\<close> elements
  inside its parent element, in document order; of a message element the model keeps the
  text and the \<open>text-align\<close> of its style, the only part of the style that varies.
\<close>

record field =
  field_value :: jstr
  field_type :: string
  field_required :: bool
  field_tagName :: string
  field_classes :: "string set"

record message_node =
  node_text_align :: string
  node_text :: jstr

record form_group =
  the_field :: field
  error_nodes :: "message_node list"

text \<open>
  The pattern \<open>/^[^\s@]+@[^\s@]+\.[^\s@]+$/\<close>: a sequence of literal code units and of
  \<open>[^\s@]+\<close>, matched against the whole string.
\<close>

datatype rx = Lit "16 word" | NotWsAtPlus

fun rx_match :: "rx list \<Rightarrow> jstr \<Rightarrow> bool" where
  "rx_match [] s = (s = [])"
| "rx_match (r # rs) [] = False"
| "rx_match (Lit c # rs) (x # s) = (x = c \<and> rx_match rs s)"
| "rx_match (NotWsAtPlus # rs) (x # s) =
     (\<not> is_ws x \<and> x \<noteq> 0x40 \<and> (rx_match rs s \<or> rx_match (NotWsAtPlus # rs) s))"

definition emailPattern :: "rx list" where
  "emailPattern = [NotWsAtPlus, Lit 0x40, NotWsAtPlus, Lit 0x2E, NotWsAtPlus]"

record messages =
  msg_required :: jstr
  msg_email :: jstr
  msg_select :: jstr
  msg_minLength :: jstr

definition errorMessages :: "(jstr \<times> messages) list" where
  "errorMessages =
     [(ascii ''en'',
       \<lparr>msg_required = ascii ''This field is required'',
        msg_email = ascii ''Please enter a valid email address'',
        msg_select = ascii ''Please select an option'',
        msg_minLength = ascii ''Please provide at least 10 characters''\<rparr>),
      (ascii ''ar'',
       \<lparr>msg_required = [0x0647, 0x0630, 0x0627, 0x0020, 0x0627, 0x0644, 0x062D, 0x0642, 0x0644, 0x0020, 0x0645, 0x0637, 0x0644, 0x0648, 0x0628],
        msg_email = [0x064A, 0x0631, 0x062C, 0x0649, 0x0020, 0x0625, 0x062F, 0x062E, 0x0627, 0x0644, 0x0020, 0x0639, 0x0646, 0x0648, 0x0627, 0x0646, 0x0020, 0x0628, 0x0631, 0x064A, 0x062F, 0x0020, 0x0625, 0x0644, 0x0643, 0x062A, 0x0631, 0x0648, 0x0646, 0x064A, 0x0020, 0x0635, 0x062D, 0x064A, 0x062D],
        msg_select = [0x064A, 0x0631, 0x062C, 0x0649, 0x0020, 0x0627, 0x062E, 0x062A, 0x064A, 0x0627, 0x0631, 0x0020, 0x062E, 0x064A, 0x0627, 0x0631],
        msg_minLength = [0x064A, 0x0631, 0x062C, 0x0649, 0x0020, 0x0643, 0x062A, 0x0627, 0x0628, 0x0629, 0x0020, 0x0661, 0x0660, 0x0020, 0x0623, 0x062D, 0x0631, 0x0641, 0x0020, 0x0639, 0x0644, 0x0649, 0x0020, 0x0627, 0x0644, 0x0623, 0x0642, 0x0644]\<rparr>)]"

text \<open>
  \<open>errorMessages[currentLang].m\<close>: a \<open>TypeError\<close> when \<open>errorMessages\<close> has nothing under
  the language; \<open>undefined\<close>, which \<open>textContent\<close> shows as the empty text, when the
  language names a member of \<open>Object.prototype\<close>.
\<close>

definition message :: "jstr \<Rightarrow> (messages \<Rightarrow> jstr) \<Rightarrow> js_error + jstr" where
  "message lang m =
     (case js_get errorMessages lang of
        Own ms \<Rightarrow> Inr (m ms)
      | Inherited \<Rightarrow> Inr []
      | Absent \<Rightarrow> Inl TypeError)"

text \<open>One of the four checks: when its condition holds it sets \<open>isValid\<close> to false and
  \<open>errorMessage\<close> to its message; the pair is \<open>(isValid, errorMessage)\<close>.\<close>

definition check :: "bool \<Rightarrow> jstr \<Rightarrow> (messages \<Rightarrow> jstr) \<Rightarrow> js_error + bool \<times> jstr
    \<Rightarrow> js_error + bool \<times> jstr" where
  "check c lang m acc =
     (case acc of
        Inl e \<Rightarrow> Inl e
      | Inr a \<Rightarrow> if c then (case message lang m of Inl e \<Rightarrow> Inl e | Inr t \<Rightarrow> Inr (False, t))
                else Inr a)"

definition validateField :: "jstr \<Rightarrow> form_group \<Rightarrow> (bool, form_group) result" where
  "validateField lang g =
     (let f = the_field g;
          v = trim (field_value f);
          g1 = g\<lparr>error_nodes := (case error_nodes g of [] \<Rightarrow> [] | n # ns \<Rightarrow> ns)\<rparr>;
          r1 = check (field_type f = ''email'' \<and> v \<noteq> [] \<and> \<not> rx_match emailPattern v)
                 lang msg_email (Inr (True, []));
          r2 = check (field_required f \<and> v = []) lang msg_required r1;
          r3 = check (field_tagName f = ''SELECT'' \<and> field_required f \<and> v = [])
                 lang msg_select r2;
          r4 = check (field_tagName f = ''TEXTAREA'' \<and> v \<noteq> [] \<and> length v < 10)
                 lang msg_minLength r3
      in case r4 of
           Inl e \<Rightarrow> Throw e g1
         | Inr (isValid, errorMessage) \<Rightarrow>
             if \<not> isValid
             then Return False
                    (g1\<lparr>the_field := f\<lparr>field_classes := insert ''error'' (field_classes f)\<rparr>,
                        error_nodes := error_nodes g1 @
                          [\<lparr>node_text_align = (if lang = ascii ''ar'' then ''right'' else ''left''),
                            node_text = errorMessage\<rparr>]\<rparr>)
             else Return True
                    (g1\<lparr>the_field := f\<lparr>field_classes := field_classes f - {''error''}\<rparr>\<rparr>))"

text \<open>
  The invalid cases as the specification lists them: an empty required field, a malformed
  non-empty email, an empty required selection, a non-empty free text under 10
  characters. Empty means empty after trimming.
\<close>

definition invalid_case :: "field \<Rightarrow> bool" where
  "invalid_case f =
     (let v = trim (field_value f)
      in (field_required f \<and> v = [])
         \<or> (field_type f = ''email'' \<and> v \<noteq> [] \<and> \<not> rx_match emailPattern v)
         \<or> (field_tagName f = ''SELECT'' \<and> field_required f \<and> v = [])
         \<or> (field_tagName f = ''TEXTAREA'' \<and> v \<noteq> [] \<and> length v < 10))"

section \<open>script.js: translations and content loading\<close>

text \<open>
  The \<open>translations\<close> object of \<open>initLanguageSwitcher\<close>: two own properties, \<open>en\<close> and
  \<open>ar\<close>, each a dictionary from keys to texts.
\<close>

record translation_table =
  tr_en :: "(jstr \<times> jstr) list"
  tr_ar :: "(jstr \<times> jstr) list"

definition translations_en :: "(jstr \<times> jstr) list" where
  "translations_en =
     [(ascii ''heroTitle'',
       ascii ''Pharmacy Club''),
      (ascii ''heroMotto'',
       [0x201C] @ ascii ''The palm: identity and continuous giving. The pill: serving health and community. The book: science, knowledge, and academic excellence.'' @ [0x201D]),
      (ascii ''navAbout'',
       ascii ''About''),
      (ascii ''navEvents'',
       ascii ''Events''),
      (ascii ''navNews'',
       ascii ''News''),
      (ascii ''navGallery'',
       ascii ''Gallery''),
      (ascii ''navContact'',
       ascii ''Contact''),
      (ascii ''aboutHeading'',
       ascii ''About the Pharmacy Club''),
      (ascii ''aboutParagraph1'',
       ascii ''Participation in professional student organizations enriches the pharmacy experience and helps members explore different career paths while sharpening their leadership and communication skills. As part of the college, the club offers opportunities to engage with peers and professionals, share knowledge about clinical pharmacy, and promote excellence in patient care, research and education. Members are encouraged to develop the interdisciplinary skills needed to thrive in diverse health care settings.''),
      (ascii ''aboutParagraph2'',
       ascii ''Through hands'' @ [0x2011] @ ascii ''on workshops, community service and health outreach, participants refine their clinical and communication abilities, deepen their understanding of patient'' @ [0x2011] @ ascii ''centred care and prepare to improve public health. These experiences embody the club'' @ [0x2019] @ ascii ''s motto by emphasising identity and continuous giving, serving health and community and the pursuit of science and knowledge.''),
      (ascii ''eventsHeading'',
       ascii ''Upcoming Events''),
      (ascii ''newsHeading'',
       ascii ''Latest News''),
      (ascii ''galleryHeading'',
       ascii ''Gallery''),
      (ascii ''contactHeading'',
       ascii ''Contact Us''),
      (ascii ''contactName'',
       ascii ''Name''),
      (ascii ''contactEmail'',
       ascii ''Email''),
      (ascii ''contactMessage'',
       ascii ''Message''),
      (ascii ''contactSubmit'',
       ascii ''Send''),
      (ascii ''contactPlaceholderName'',
       ascii ''Your name''),
      (ascii ''contactPlaceholderEmail'',
       ascii ''your@email.com''),
      (ascii ''contactPlaceholderMessage'',
       ascii ''How can we help?''),
      (ascii ''contactAlert'',
       ascii ''Thank you for contacting the Pharmacy Club! We will get back to you shortly.'')]"

definition translations_ar :: "(jstr \<times> jstr) list" where
  "translations_ar =
     [(ascii ''heroTitle'',
       [0x0646, 0x0627, 0x062F, 0x064A, 0x0020, 0x0627, 0x0644, 0x0635, 0x064A, 0x062F, 0x0644, 0x0629]),
      (ascii ''heroMotto'',
       [0x201C, 0x0627, 0x0644, 0x0646, 0x062E, 0x0644, 0x0629, 0x003A, 0x0020, 0x0627, 0x0644, 0x0647, 0x0648, 0x064A, 0x0629, 0x0020, 0x0648, 0x0627, 0x0644, 0x0639, 0x0637, 0x0627, 0x0621, 0x0020, 0x0627, 0x0644, 0x0645, 0x0633, 0x062A, 0x0645, 0x0631, 0x002E, 0x0020, 0x0627, 0x0644, 0x062D, 0x0628, 0x0629, 0x003A, 0x0020, 0x062E, 0x062F, 0x0645, 0x0629, 0x0020, 0x0627, 0x0644, 0x0635, 0x062D, 0x0629, 0x0020, 0x0648, 0x0627, 0x0644, 0x0645, 0x062C, 0x062A, 0x0645, 0x0639, 0x002E, 0x0020, 0x0627, 0x0644, 0x0643, 0x062A, 0x0627, 0x0628, 0x003A, 0x0020, 0x0627, 0x0644, 0x0639, 0x0644, 0x0645, 0x0020, 0x0648, 0x0627, 0x0644, 0x0645, 0x0639, 0x0631, 0x0641, 0x0629, 0x0020, 0x0648, 0x0627, 0x0644, 0x062A, 0x0641, 0x0648, 0x0642, 0x0020, 0x0627, 0x0644, 0x0623, 0x0643, 0x0627, 0x062F, 0x064A, 0x0645, 0x064A, 0x002E, 0x201D]),
      (ascii ''navAbout'',
       [0x0639, 0x0646, 0x0020, 0x0627, 0x0644, 0x0646, 0x0627, 0x062F, 0x064A]),
      (ascii ''navEvents'',
       [0x0627, 0x0644, 0x0641, 0x0639, 0x0627, 0x0644, 0x064A, 0x0627, 0x062A]),
      (ascii ''navNews'',
       [0x0627, 0x0644, 0x0623, 0x062E, 0x0628, 0x0627, 0x0631]),
      (ascii ''navGallery'',
       [0x0627, 0x0644, 0x0645, 0x0639, 0x0631, 0x0636]),
      (ascii ''navContact'',
       [0x0627, 0x062A, 0x0635, 0x0644, 0x0020, 0x0628, 0x0646, 0x0627]),
      (ascii ''aboutHeading'',
       [0x0639, 0x0646, 0x0020, 0x0646, 0x0627, 0x062F, 0x064A, 0x0020, 0x0627, 0x0644, 0x0635, 0x064A, 0x062F, 0x0644, 0x0629]),
      (ascii ''aboutParagraph1'',
       [0x0627, 0x0644, 0x0627, 0x0646, 0x0636, 0x0645, 0x0627, 0x0645, 0x0020, 0x0625, 0x0644, 0x0649, 0x0020, 0x0627, 0x0644, 0x0645, 0x0646, 0x0638, 0x0645, 0x0627, 0x062A, 0x0020, 0x0627, 0x0644, 0x0637, 0x0644, 0x0627, 0x0628, 0x064A, 0x0629, 0x0020, 0x0627, 0x0644, 0x0645, 0x0647, 0x0646, 0x064A, 0x0629, 0x0020, 0x064A, 0x062B, 0x0631, 0x064A, 0x0020, 0x062A, 0x062C, 0x0631, 0x0628, 0x0629, 0x0020, 0x0627, 0x0644, 0x0637, 0x0627, 0x0644, 0x0628, 0x0020, 0x0627, 0x0644, 0x0635, 0x064A, 0x062F, 0x0644, 0x064A, 0x0020, 0x0648, 0x064A, 0x0633, 0x0627, 0x0639, 0x062F, 0x0020, 0x0627, 0x0644, 0x0623, 0x0639, 0x0636, 0x0627, 0x0621, 0x0020, 0x0639, 0x0644, 0x0649, 0x0020, 0x0627, 0x0633, 0x062A, 0x0643, 0x0634, 0x0627, 0x0641, 0x0020, 0x0645, 0x0633, 0x0627, 0x0631, 0x0627, 0x062A, 0x0020, 0x0645, 0x0647, 0x0646, 0x064A, 0x0629, 0x0020, 0x0645, 0x062E, 0x062A, 0x0644, 0x0641, 0x0629, 0x0020, 0x0645, 0x0639, 0x0020, 0x062A, 0x0639, 0x0632, 0x064A, 0x0632, 0x0020, 0x0645, 0x0647, 0x0627, 0x0631, 0x0627, 0x062A, 0x0020, 0x0627, 0x0644, 0x0642, 0x064A, 0x0627, 0x062F, 0x0629, 0x0020, 0x0648, 0x0627, 0x0644, 0x062A, 0x0648, 0x0627, 0x0635, 0x0644, 0x002E, 0x0020, 0x064A, 0x0648, 0x0641, 0x0631, 0x0020, 0x0627, 0x0644, 0x0646, 0x0627, 0x062F, 0x064A, 0x0020, 0x0641, 0x0631, 0x0635, 0x064B, 0x0627, 0x0020, 0x0644, 0x0644, 0x062A, 0x0641, 0x0627, 0x0639, 0x0644, 0x0020, 0x0645, 0x0639, 0x0020, 0x0627, 0x0644, 0x0632, 0x0645, 0x0644, 0x0627, 0x0621, 0x0020, 0x0648, 0x0627, 0x0644, 0x0645, 0x062A, 0x062E, 0x0635, 0x0635, 0x064A, 0x0646, 0x060C, 0x0020, 0x0648, 0x0645, 0x0634, 0x0627, 0x0631, 0x0643, 0x0629, 0x0020, 0x0627, 0x0644, 0x0645, 0x0639, 0x0631, 0x0641, 0x0629, 0x0020, 0x062D, 0x0648, 0x0644, 0x0020, 0x0627, 0x0644, 0x0635, 0x064A, 0x062F, 0x0644, 0x0629, 0x0020, 0x0627, 0x0644, 0x0633, 0x0631, 0x064A, 0x0631, 0x064A, 0x0629, 0x060C, 0x0020, 0x0648, 0x062A, 0x0639, 0x0632, 0x064A, 0x0632, 0x0020, 0x0627, 0x0644, 0x062A, 0x0645, 0x064A, 0x0632, 0x0020, 0x0641, 0x064A, 0x0020, 0x0631, 0x0639, 0x0627, 0x064A, 0x0629, 0x0020, 0x0627, 0x0644, 0x0645, 0x0631, 0x0636, 0x0649, 0x0020, 0x0648, 0x0627, 0x0644, 0x0628, 0x062D, 0x062B, 0x0020, 0x0648, 0x0627, 0x0644, 0x062A, 0x0639, 0x0644, 0x064A, 0x0645, 0x002E, 0x0020, 0x064A, 0x0634, 0x062C, 0x0639, 0x0020, 0x0627, 0x0644, 0x0623, 0x0639, 0x0636, 0x0627, 0x0621, 0x0020, 0x0639, 0x0644, 0x0649, 0x0020, 0x062A, 0x0637, 0x0648, 0x064A, 0x0631, 0x0020, 0x0627, 0x0644, 0x0645, 0x0647, 0x0627, 0x0631, 0x0627, 0x062A, 0x0020, 0x0627, 0x0644, 0x0645, 0x062A, 0x0639, 0x062F, 0x062F, 0x0629, 0x0020, 0x0627, 0x0644, 0x062A, 0x062E, 0x0635, 0x0635, 0x0627, 0x062A, 0x0020, 0x0627, 0x0644, 0x0644, 0x0627, 0x0632, 0x0645, 0x0629, 0x0020, 0x0644, 0x0644, 0x0646, 0x062C, 0x0627, 0x062D, 0x0020, 0x0641, 0x064A, 0x0020, 0x0628, 0x064A, 0x0626, 0x0627, 0x062A, 0x0020, 0x0627, 0x0644, 0x0631, 0x0639, 0x0627, 0x064A, 0x0629, 0x0020, 0x0627, 0x0644, 0x0635, 0x062D, 0x064A, 0x0629, 0x0020, 0x0627, 0x0644, 0x0645, 0x062A, 0x0646, 0x0648, 0x0639, 0x0629, 0x002E]),
      (ascii ''aboutParagraph2'',
       [0x0645, 0x0646, 0x0020, 0x062E, 0x0644, 0x0627, 0x0644, 0x0020, 0x0648, 0x0631, 0x0634, 0x0020, 0x0627, 0x0644, 0x0639, 0x0645, 0x0644, 0x0020, 0x0627, 0x0644, 0x0639, 0x0645, 0x0644, 0x064A, 0x0629, 0x0020, 0x0648, 0x062E, 0x062F, 0x0645, 0x0629, 0x0020, 0x0627, 0x0644, 0x0645, 0x062C, 0x062A, 0x0645, 0x0639, 0x0020, 0x0648, 0x0627, 0x0644, 0x062A, 0x0648, 0x0639, 0x064A, 0x0629, 0x0020, 0x0627, 0x0644, 0x0635, 0x062D, 0x064A, 0x0629, 0x060C, 0x0020, 0x064A, 0x0635, 0x0642, 0x0644, 0x0020, 0x0627, 0x0644, 0x0645, 0x0634, 0x0627, 0x0631, 0x0643, 0x0648, 0x0646, 0x0020, 0x0645, 0x0647, 0x0627, 0x0631, 0x0627, 0x062A, 0x0647, 0x0645, 0x0020, 0x0627, 0x0644, 0x0633, 0x0631, 0x064A, 0x0631, 0x064A, 0x0629, 0x0020, 0x0648, 0x0627, 0x0644, 0x0627, 0x062A, 0x0635, 0x0627, 0x0644, 0x064A, 0x0629, 0x060C, 0x0020, 0x0648, 0x064A, 0x0639, 0x0645, 0x0642, 0x0648, 0x0646, 0x0020, 0x0641, 0x0647, 0x0645, 0x0647, 0x0645, 0x0020, 0x0644, 0x0644, 0x0631, 0x0639, 0x0627, 0x064A, 0x0629, 0x0020, 0x0627, 0x0644, 0x0645, 0x062A, 0x0645, 0x0631, 0x0643, 0x0632, 0x0629, 0x0020, 0x0639, 0x0644, 0x0649, 0x0020, 0x0627, 0x0644, 0x0645, 0x0631, 0x064A, 0x0636, 0x060C, 0x0020, 0x0648, 0x064A, 0x0633, 0x062A, 0x0639, 0x062F, 0x0648, 0x0646, 0x0020, 0x0644, 0x062A, 0x062D, 0x0633, 0x064A, 0x0646, 0x0020, 0x0627, 0x0644, 0x0635, 0x062D, 0x0629, 0x0020, 0x0627, 0x0644, 0x0639, 0x0627, 0x0645, 0x0629, 0x002E, 0x0020, 0x062A, 0x062C, 0x0633, 0x062F, 0x0020, 0x0647, 0x0630, 0x0647, 0x0020, 0x0627, 0x0644, 0x062A, 0x062C, 0x0627, 0x0631, 0x0628, 0x0020, 0x0634, 0x0639, 0x0627, 0x0631, 0x0020, 0x0627, 0x0644, 0x0646, 0x0627, 0x062F, 0x064A, 0x0020, 0x0628, 0x0627, 0x0644, 0x062A, 0x0623, 0x0643, 0x064A, 0x062F, 0x0020, 0x0639, 0x0644, 0x0649, 0x0020, 0x0627, 0x0644, 0x0647, 0x0648, 0x064A, 0x0629, 0x0020, 0x0648, 0x0627, 0x0644, 0x0639, 0x0637, 0x0627, 0x0621, 0x0020, 0x0627, 0x0644, 0x0645, 0x0633, 0x062A, 0x0645, 0x0631, 0x060C, 0x0020, 0x0648, 0x062E, 0x062F, 0x0645, 0x0629, 0x0020, 0x0627, 0x0644, 0x0635, 0x062D, 0x0629, 0x0020, 0x0648, 0x0627, 0x0644, 0x0645, 0x062C, 0x062A, 0x0645, 0x0639, 0x060C, 0x0020, 0x0648, 0x0627, 0x0644, 0x0633, 0x0639, 0x064A, 0x0020, 0x0625, 0x0644, 0x0649, 0x0020, 0x0627, 0x0644, 0x0639, 0x0644, 0x0645, 0x0020, 0x0648, 0x0627, 0x0644, 0x0645, 0x0639, 0x0631, 0x0641, 0x0629, 0x002E]),
      (ascii ''eventsHeading'',
       [0x0627, 0x0644, 0x0641, 0x0639, 0x0627, 0x0644, 0x064A, 0x0627, 0x062A, 0x0020, 0x0627, 0x0644, 0x0642, 0x0627, 0x062F, 0x0645, 0x0629]),
      (ascii ''newsHeading'',
       [0x0622, 0x062E, 0x0631, 0x0020, 0x0627, 0x0644, 0x0623, 0x062E, 0x0628, 0x0627, 0x0631]),
      (ascii ''galleryHeading'',
       [0x0645, 0x0639, 0x0631, 0x0636, 0x0020, 0x0627, 0x0644, 0x0635, 0x0648, 0x0631]),
      (ascii ''contactHeading'',
       [0x0627, 0x062A, 0x0635, 0x0644, 0x0020, 0x0628, 0x0646, 0x0627]),
      (ascii ''contactName'',
       [0x0627, 0x0644, 0x0627, 0x0633, 0x0645]),
      (ascii ''contactEmail'',
       [0x0627, 0x0644, 0x0628, 0x0631, 0x064A, 0x062F, 0x0020, 0x0627, 0x0644, 0x0625, 0x0644, 0x0643, 0x062A, 0x0631, 0x0648, 0x0646, 0x064A]),
      (ascii ''contactMessage'',
       [0x0627, 0x0644, 0x0631, 0x0633, 0x0627, 0x0644, 0x0629]),
      (ascii ''contactSubmit'',
       [0x0625, 0x0631, 0x0633, 0x0627, 0x0644]),
      (ascii ''contactPlaceholderName'',
       [0x0627, 0x0633, 0x0645, 0x0643]),
      (ascii ''contactPlaceholderEmail'',
       [0x0628, 0x0631, 0x064A, 0x062F, 0x0643, 0x0020, 0x0627, 0x0644, 0x0625, 0x0644, 0x0643, 0x062A, 0x0631, 0x0648, 0x0646, 0x064A]),
      (ascii ''contactPlaceholderMessage'',
       [0x0643, 0x064A, 0x0641, 0x0020, 0x064A, 0x0645, 0x0643, 0x0646, 0x0646, 0x0627, 0x0020, 0x0645, 0x0633, 0x0627, 0x0639, 0x062F, 0x062A, 0x0643, 0x061F]),
      (ascii ''contactAlert'',
       [0x0634, 0x0643, 0x0631, 0x0627, 0x0020, 0x0644, 0x062A, 0x0648, 0x0627, 0x0635, 0x0644, 0x0643, 0x0020, 0x0645, 0x0639, 0x0020, 0x0646, 0x0627, 0x062F, 0x064A, 0x0020, 0x0627, 0x0644, 0x0635, 0x064A, 0x062F, 0x0644, 0x0629, 0x0021, 0x0020, 0x0633, 0x0646, 0x0639, 0x0648, 0x062F, 0x0020, 0x0625, 0x0644, 0x064A, 0x0643, 0x0020, 0x0642, 0x0631, 0x064A, 0x0628, 0x0627, 0x064B, 0x002E])]"

definition the_translations :: translation_table where
  "the_translations = \<lparr>tr_en = translations_en, tr_ar = translations_ar\<rparr>"

text \<open>
  What the JavaScript engine defines and the repository does not: for a member of
  \<open>Object.prototype\<close>, given by name, the string it converts to, and its own properties
  read as the script reads them (\<open>None\<close> for a value that fails \<open>if (v)\<close>, else the string
  the value converts to).
\<close>

record engine =
  native_text :: "jstr \<Rightarrow> jstr"
  native_get :: "jstr \<Rightarrow> jstr \<Rightarrow> jstr option"

text \<open>\<open>translations[lang] || translations.en\<close> is a dictionary of the catalog, or the
  member of \<open>Object.prototype\<close> that \<open>lang\<close> names.\<close>

datatype dict = Catalog "(jstr \<times> jstr) list" | Member jstr

definition select_dict :: "translation_table \<Rightarrow> jstr \<Rightarrow> dict" where
  "select_dict tr lang =
     (case js_get [(ascii ''en'', tr_en tr), (ascii ''ar'', tr_ar tr)] lang of
        Own c \<Rightarrow> Catalog c
      | Inherited \<Rightarrow> Member lang
      | Absent \<Rightarrow> Catalog (tr_en tr))"

text \<open>\<open>dict[key]\<close> as \<open>if (dict[key])\<close> sees it: \<open>None\<close> when the test fails, else the
  string that the assignment writes.\<close>

definition dict_get :: "engine \<Rightarrow> dict \<Rightarrow> jstr \<Rightarrow> jstr option" where
  "dict_get eng d key =
     (case d of
        Catalog c \<Rightarrow>
          (case js_get c key of
             Own t \<Rightarrow> if t = [] then None else Some t
           | Inherited \<Rightarrow> Some (native_text eng key)
           | Absent \<Rightarrow> None)
      | Member n \<Rightarrow> native_get eng n key)"

text \<open>
  The state script.js works on: the elements, the \<open>dir\<close> attribute of \<open>body\<close>,
  \<open>document.documentElement.dataset.currentLang\<close>, \<open>localStorage\<close>, \<open>navigator.language\<close>
  (which script.js never reads), \<open>window.i18nTranslations\<close>, the console, the containers
  of the content loader by selector (\<open>innerHTML\<close>; \<open>None\<close> when \<open>querySelector\<close> finds
  nothing), and the URLs fetched so far. \<open>translated\<close> records the calls of
  \<open>applyTranslations\<close>; the script never reads it.
\<close>

record page =
  page_elements :: "node list"
  body_dir :: "jstr option"
  dataset_currentLang :: "jstr option"
  page_localStorage :: storage
  page_navigator_language :: "jstr option"
  i18nTranslations :: "translation_table option"
  page_console :: "console_entry list"
  containers :: "string \<rightharpoonup> jstr"
  fetched :: "string list"
  translated :: "jstr list"

text \<open>The callbacks of the three \<open>forEach\<close> of \<open>applyTranslations\<close>.\<close>

definition translate_text :: "engine \<Rightarrow> dict \<Rightarrow> node \<Rightarrow> node" where
  "translate_text eng d el =
     (case attrs (elem el) (ascii ''data-i18n'') of
        None \<Rightarrow> el
      | Some key \<Rightarrow>
          (case dict_get eng d key of None \<Rightarrow> el | Some t \<Rightarrow> set_textContent el t))"

definition translate_placeholder :: "engine \<Rightarrow> dict \<Rightarrow> node \<Rightarrow> node" where
  "translate_placeholder eng d el =
     (case attrs (elem el) (ascii ''data-placeholder-i18n'') of
        None \<Rightarrow> el
      | Some key \<Rightarrow>
          (case dict_get eng d key of
             None \<Rightarrow> el
           | Some t \<Rightarrow> set_attribute el (ascii ''placeholder'') t))"

definition highlight_button :: "jstr \<Rightarrow> node \<Rightarrow> node" where
  "highlight_button lang btn =
     classList_toggle btn ''active'' (getAttribute (attrs (elem btn)) (ascii ''data-lang'') = Some lang)"

definition applyTranslations :: "engine \<Rightarrow> translation_table \<Rightarrow> jstr \<Rightarrow> page \<Rightarrow> (unit, page) result" where
  "applyTranslations eng tr lang st =
     (let d = select_dict tr lang;
          es1 = map (forEach (\<lambda>e. hasAttribute e (ascii ''data-i18n'')) (translate_text eng d))
                    (page_elements st);
          es2 = map (forEach (\<lambda>e. hasAttribute e (ascii ''data-placeholder-i18n''))
                       (translate_placeholder eng d))
                    es1;
          es3 = map (forEach (\<lambda>e. in_lang_selector e \<and> tagName e = ''BUTTON'')
                       (highlight_button lang))
                    es2;
          st1 = st\<lparr>page_elements := es3,
                   body_dir := Some (if lang = ascii ''ar'' then ascii ''rtl'' else ascii ''ltr''),
                   translated := translated st @ [lang]\<rparr>
      in case setItem (page_localStorage st1) (ascii ''preferredLanguage'') lang of
           Inl e \<Rightarrow> Throw e st1
         | Inr s \<Rightarrow> Return () (st1\<lparr>page_localStorage := s, dataset_currentLang := Some lang\<rparr>))"

definition initLanguageSwitcher :: "engine \<Rightarrow> translation_table \<Rightarrow> page \<Rightarrow> (unit, page) result" where
  "initLanguageSwitcher eng tr st =
     (let st1 = st\<lparr>i18nTranslations := Some tr\<rparr>
      in case getItem (page_localStorage st1) (ascii ''preferredLanguage'') of
           Inl e \<Rightarrow> Throw e st1
         | Inr v \<Rightarrow> applyTranslations eng tr (if truthy v then the v else ascii ''en'') st1)"

text \<open>
  The content loader. A fetch ends in a rejected \<open>fetch\<close>, a body that \<open>response.json()\<close>
  rejects, or parsed JSON. The properties of a JSON object are listed in the order
  \<open>Object.values\<close> gives them.
\<close>

datatype json = JNull | JBool bool | JNum int | JStr jstr | JArr "json list"
  | JObj "(jstr \<times> json) list"

datatype response = NetworkError | NotJson | Parsed json

text \<open>\<open>Object.values(data)\<close>: a \<open>TypeError\<close> on \<open>null\<close>.\<close>

fun object_values :: "json \<Rightarrow> js_error + json list" where
  "object_values JNull = Inl TypeError"
| "object_values (JObj kvs) = Inr (map snd kvs)"
| "object_values (JArr xs) = Inr xs"
| "object_values (JStr s) = Inr (map (\<lambda>c. JStr [c]) s)"
| "object_values (JBool b) = Inr []"
| "object_values (JNum n) = Inr []"

text \<open>\<open>items.map(templateFn).join('')\<close>; the first exception of the template ends it.\<close>

fun render_items :: "(json \<Rightarrow> js_error + jstr) \<Rightarrow> json list \<Rightarrow> js_error + jstr" where
  "render_items templateFn [] = Inr []"
| "render_items templateFn (x # xs) =
     (case templateFn x of
        Inl e \<Rightarrow> Inl e
      | Inr h \<Rightarrow> (case render_items templateFn xs of Inl e \<Rightarrow> Inl e | Inr hs \<Rightarrow> Inr (h @ hs)))"

text \<open>The second \<open>then\<close> callback of \<open>fetchAndRender\<close>: the markup it assigns to the
  container, or the exception it throws.\<close>

definition render :: "(json \<Rightarrow> js_error + jstr) \<Rightarrow> json \<Rightarrow> js_error + jstr" where
  "render templateFn data =
     (case object_values data of
        Inl e \<Rightarrow> Inl e
      | Inr vs \<Rightarrow>
          (case vs of
             JArr (x # xs) # rest \<Rightarrow> render_items templateFn (x # xs)
           | _ \<Rightarrow> Inr (ascii ''<p>No entries available.</p>'')))"

definition error_placeholder :: jstr where
  "error_placeholder = ascii ''<p style=\"color: red;\">Unable to load content. If you are viewing this page locally, please run a local web server to allow fetching JSON files.</p>''"

text \<open>
  \<open>fetchAndRender\<close>, up to the point where its promise has settled. \<open>respond\<close> is the
  network: what fetching a URL ends in. \<open>templateFn\<close> is the parameter of that name.
\<close>

definition fetchAndRender ::
    "(string \<Rightarrow> response) \<Rightarrow> string \<Rightarrow> string \<Rightarrow> (json \<Rightarrow> js_error + jstr) \<Rightarrow> page \<Rightarrow> page" where
  "fetchAndRender respond url containerSelector templateFn st =
     (case containers st containerSelector of
        None \<Rightarrow> st
      | Some old \<Rightarrow>
          (let st1 = st\<lparr>fetched := fetched st @ [url]\<rparr>;
               failed = st1\<lparr>page_console := page_console st1 @ [Error (ascii ''Failed to load '' @ ascii url)],
                            containers := (containers st1)(containerSelector \<mapsto> error_placeholder)\<rparr>
           in case respond url of
                NetworkError \<Rightarrow> failed
              | NotJson \<Rightarrow> failed
              | Parsed data \<Rightarrow>
                  (case render templateFn data of
                     Inl e \<Rightarrow> failed
                   | Inr html \<Rightarrow>
                       st1\<lparr>containers := (containers st1)(containerSelector \<mapsto> html)\<rparr>)))"

text \<open>\<open>loadJSONContent\<close>: the news, then the events. The two templates format dates with
  the browser's locale and are parameters here.\<close>

definition loadJSONContent ::
    "(string \<Rightarrow> response) \<Rightarrow> (json \<Rightarrow> js_error + jstr) \<Rightarrow> (json \<Rightarrow> js_error + jstr) \<Rightarrow> page \<Rightarrow> page" where
  "loadJSONContent respond newsTemplate eventTemplate st =
     fetchAndRender respond ''data/events.json'' ''#events-list'' eventTemplate
       (fetchAndRender respond ''data/news.json'' ''#news-list'' newsTemplate st)"

section \<open>Notions used in the statements\<close>

text \<open>The state a call ends in, returned or thrown.\<close>

definition state_of :: "('a, 's) result \<Rightarrow> 's" where
  "state_of r = (case r of Return x s \<Rightarrow> s | Throw e s \<Rightarrow> s)"

text \<open>
  The environment's locale signal as app.js reads it, and the language the specification
  resolves at initialization: the stored preference if present, otherwise \<open>ar\<close> if the
  locale starts with \<open>ar\<close>, else \<open>en\<close>; \<open>en\<close> when there is no locale.
\<close>

definition browser_locale :: "app_state \<Rightarrow> jstr option" where
  "browser_locale st =
     (if truthy (navigator_language st) then navigator_language st else navigator_userLanguage st)"

definition resolved_language :: "jstr option \<Rightarrow> jstr option \<Rightarrow> jstr" where
  "resolved_language stored locale =
     (if truthy stored then the stored
      else case locale of
             None \<Rightarrow> ascii ''en''
           | Some b \<Rightarrow> if startsWith b (ascii ''ar'') then ascii ''ar'' else ascii ''en'')"

text \<open>The message \<open>validateField\<close> displays: the text of the node it appends.\<close>

definition displayed_message :: "jstr \<Rightarrow> form_group \<Rightarrow> jstr option" where
  "displayed_message lang g =
     (case validateField lang g of
        Return ok g' \<Rightarrow> if ok then None else Some (node_text (last (error_nodes g')))
      | Throw e g' \<Rightarrow> None)"

text \<open>The message of the last check that fails, in the order of the checks.\<close>

definition verdict :: "messages \<Rightarrow> field \<Rightarrow> jstr option" where
  "verdict ms f =
     (let v = trim (field_value f)
      in if field_tagName f = ''TEXTAREA'' \<and> v \<noteq> [] \<and> length v < 10 then Some (msg_minLength ms)
         else if field_tagName f = ''SELECT'' \<and> field_required f \<and> v = [] then Some (msg_select ms)
         else if field_required f \<and> v = [] then Some (msg_required ms)
         else if field_type f = ''email'' \<and> v \<noteq> [] \<and> \<not> rx_match emailPattern v
              then Some (msg_email ms)
         else None)"

definition without_first :: "message_node list \<Rightarrow> message_node list" where
  "without_first ns = (case ns of [] \<Rightarrow> [] | n # ns' \<Rightarrow> ns')"

definition rejected :: "jstr \<Rightarrow> jstr \<Rightarrow> form_group \<Rightarrow> form_group" where
  "rejected lang t g =
     \<lparr>the_field = (the_field g)\<lparr>field_classes := insert ''error'' (field_classes (the_field g))\<rparr>,
      error_nodes = without_first (error_nodes g) @
        [\<lparr>node_text_align = (if lang = ascii ''ar'' then ''right'' else ''left''), node_text = t\<rparr>]\<rparr>"

definition accepted :: "form_group \<Rightarrow> form_group" where
  "accepted g =
     \<lparr>the_field = (the_field g)\<lparr>field_classes := field_classes (the_field g) - {''error''}\<rparr>,
      error_nodes = without_first (error_nodes g)\<rparr>"

text \<open>
  The node at a position of a document and the elements around it, from the outermost.
  A position is the list of the indices that lead to the node: \<open>[2, 0]\<close> is the first node
  inside the third node of the document.
\<close>

fun node_at :: "node list \<Rightarrow> nat list \<Rightarrow> node option" where
  "node_at ns [] = None"
| "node_at ns (i # p) =
     (if i < length ns
      then (if p = [] then Some (ns ! i) else node_at (children (ns ! i)) p)
      else None)"

fun around :: "node list \<Rightarrow> nat list \<Rightarrow> element list" where
  "around ns [] = []"
| "around ns (i # p) =
     (if i < length ns \<and> p \<noteq> [] then elem (ns ! i) # around (children (ns ! i)) p else [])"

text \<open>
  The elements whose content a run replaces. app.js: the element carries \<open>data-en\<close> and
  \<open>data-ar\<close>, its attribute for the language is not empty, and it is not an \<open>input\<close> other
  than a submit button. script.js: \<open>dict[key]\<close> passes the test for the element's
  \<open>data-i18n\<close> key.
\<close>

definition content_replaced :: "jstr \<Rightarrow> element \<Rightarrow> bool" where
  "content_replaced lang e =
     (has_both e \<and> truthy (getAttribute (attrs e) (ascii ''data-'' @ lang))
      \<and> \<not> (tagName e = ''INPUT'' \<and> elem_type e \<noteq> ''submit''))"

definition text_replaced :: "engine \<Rightarrow> dict \<Rightarrow> element \<Rightarrow> bool" where
  "text_replaced eng d e =
     (case attrs e (ascii ''data-i18n'') of
        None \<Rightarrow> False
      | Some key \<Rightarrow> dict_get eng d key \<noteq> None)"

text \<open>
  What the two passes of \<open>applyLanguage\<close> and the three passes of \<open>applyTranslations\<close> do
  to an element with nothing inside it. \<open>map_prune g r\<close> applies \<open>g\<close> to every element of a
  node and empties the elements that satisfy \<open>r\<close>.
\<close>

definition both_passes :: "jstr \<Rightarrow> element \<Rightarrow> element" where
  "both_passes lang e =
     elem (forEach (\<lambda>e. in_select e \<and> tagName e = ''OPTION'' \<and> has_both e) (update_option lang)
             (forEach has_both (update_element lang) (Node e [])))"

definition translate_element :: "engine \<Rightarrow> dict \<Rightarrow> jstr \<Rightarrow> element \<Rightarrow> element" where
  "translate_element eng d lang el =
     elem (forEach (\<lambda>e. in_lang_selector e \<and> tagName e = ''BUTTON'') (highlight_button lang)
             (forEach (\<lambda>e. hasAttribute e (ascii ''data-placeholder-i18n''))
                (translate_placeholder eng d)
                (forEach (\<lambda>e. hasAttribute e (ascii ''data-i18n'')) (translate_text eng d)
                   (Node el []))))"

fun map_prune :: "(element \<Rightarrow> element) \<Rightarrow> (element \<Rightarrow> bool) \<Rightarrow> node \<Rightarrow> node" where
  "map_prune g r (Node e cs) = Node (g e) (if r e then [] else map (map_prune g r) cs)"

text \<open>
  What a reader of the page sees of the language: the current language and its direction
  flag, the \<open>lang\<close> and \<open>dir\<close> attributes and the title; and what these are once a
  language has been applied. \<open>timers_within\<close> holds in every state app.js reaches: it sets
  timers 150 and 100 milliseconds ahead only, and the clock never runs backwards.
\<close>

definition language_view :: "app_state \<Rightarrow> jstr \<times> bool \<times> jstr option \<times> jstr option \<times> jstr" where
  "language_view st = (currentLang st, isRTL st, html_lang st, html_dir st, title st)"

definition applied_view :: "jstr \<Rightarrow> jstr \<times> bool \<times> jstr option \<times> jstr option \<times> jstr" where
  "applied_view l =
     (l, l = ascii ''ar'', Some l, Some (if l = ascii ''ar'' then ascii ''rtl'' else ascii ''ltr''),
      if l = ascii ''ar'' then title_ar else ascii ''Pharmacy Club - College'')"

definition timers_within :: "app_state \<Rightarrow> bool" where
  "timers_within st = list_all (\<lambda>x. fst x \<le> clock st + 150) (timers st)"

section \<open>Inputs on which the theorems are instantiated\<close>

definition demo_image :: "string \<Rightarrow> image" where
  "demo_image n = \<lparr>src = Some (ascii n), caption = ascii ''Gallery Image''\<rparr>"

definition demo_gallery :: gallery where
  "demo_gallery =
     \<lparr>galleryImages = [demo_image ''a.jpg'', demo_image ''b.jpg'', demo_image ''c.jpg''],
      currentImageIndex = Num 2,
      lightboxImg = Some \<lparr>img_src = None, img_alt = []\<rparr>,
      lightboxCaption = Some []\<rparr>"

definition empty_gallery :: gallery where
  "empty_gallery =
     \<lparr>galleryImages = [], currentImageIndex = Num 0,
      lightboxImg = Some \<lparr>img_src = None, img_alt = []\<rparr>, lightboxCaption = Some []\<rparr>"

definition text_field :: "string \<Rightarrow> string \<Rightarrow> bool \<Rightarrow> string \<Rightarrow> form_group" where
  "text_field tag ty req v =
     \<lparr>the_field = \<lparr>field_value = ascii v, field_type = ty, field_required = req,
                     field_tagName = tag, field_classes = {''form-control''}\<rparr>,
      error_nodes = []\<rparr>"

definition demo_engine :: engine where
  "demo_engine =
     \<lparr>native_text = (\<lambda>n. ascii ''function '' @ n @ ascii ''() { [native code] }''),
      native_get = (\<lambda>n k. None)\<rparr>"

definition nav_link :: element where
  "nav_link =
     \<lparr>tagName = ''A'', elem_type = [], attrs = [ascii ''data-i18n'' \<mapsto> ascii ''navAbout''],
      content = Text (ascii ''About''), classes = {}, in_select = False,
      in_lang_selector = False\<rparr>"

definition demo_page :: page where
  "demo_page =
     \<lparr>page_elements = [Node nav_link []], body_dir = None, dataset_currentLang = None,
      page_localStorage = \<lparr>items = Map.empty, get_throws = False, set_throws = False\<rparr>,
      page_navigator_language = Some (ascii ''ar-SA''), i18nTranslations = None,
      page_console = [],
      containers = [''#news-list'' \<mapsto> [], ''#events-list'' \<mapsto> []],
      fetched = [], translated = []\<rparr>"

definition private_page :: page where
  "private_page =
     demo_page\<lparr>page_localStorage := \<lparr>items = Map.empty, get_throws = False, set_throws = True\<rparr>\<rparr>"

definition demo_app :: app_state where
  "demo_app =
     \<lparr>currentLang = [], isRTL = False, html_lang = None, html_dir = None,
      title = ascii ''Pharmacy Club - College'', elements = [], lang_text = Some [],
      body_classes = {},
      localStorage = \<lparr>items = Map.empty, get_throws = False, set_throws = False\<rparr>,
      navigator_language = Some (ascii ''ar-SA''), navigator_userLanguage = None,
      console = [], clock = 0, timers = [], galleryItems = [],
      lightbox = empty_gallery, dispatched = [], applied = []\<rparr>"

definition english_only :: element where
  "english_only =
     \<lparr>tagName = ''P'', elem_type = [], attrs = [ascii ''data-en'' \<mapsto> ascii ''Welcome''],
      content = Text (ascii ''Bienvenue''), classes = {}, in_select = False,
      in_lang_selector = False\<rparr>"

definition bilingual :: "string \<Rightarrow> string \<Rightarrow> jstr \<Rightarrow> element" where
  "bilingual tag en ar =
     \<lparr>tagName = tag, elem_type = [],
      attrs = [ascii ''data-en'' \<mapsto> ascii en, ascii ''data-ar'' \<mapsto> ar],
      content = Text (ascii en), classes = {}, in_select = False, in_lang_selector = False\<rparr>"

definition keyed :: "string \<Rightarrow> string \<Rightarrow> element" where
  "keyed k t =
     \<lparr>tagName = ''H2'', elem_type = [], attrs = [ascii ''data-i18n'' \<mapsto> ascii k],
      content = Text (ascii t), classes = {}, in_select = False, in_lang_selector = False\<rparr>"

definition demo_template :: "json \<Rightarrow> js_error + jstr" where
  "demo_template item =
     (case item of JNull \<Rightarrow> Inl TypeError | _ \<Rightarrow> Inr (ascii ''<article></article>''))"

definition events_down :: "string \<Rightarrow> response" where
  "events_down url =
     (if url = ''data/news.json''
      then Parsed (JObj [(ascii ''news'', JArr [JObj [(ascii ''title'', JStr (ascii ''Open day''))]])])
      else NetworkError)"

definition welcome_ar :: jstr where
  "welcome_ar = [0x0645, 0x0631, 0x062D, 0x0628, 0x0627]"

definition bilingual_app :: app_state where
  "bilingual_app =
     demo_app\<lparr>elements := [Node (bilingual ''H1'' ''Welcome'' welcome_ar) [Node english_only []],
                           Node (bilingual ''DIV'' ''About us'' []) [Node english_only []]]\<rparr>"

definition keyed_page :: page where
  "keyed_page =
     demo_page\<lparr>page_elements := [Node (keyed ''navAbout'' ''About'') [Node (keyed ''navNews'' ''News'') []],
                                 Node (keyed ''footerNote'' ''Footer'') [Node (keyed ''navNews'' ''News'') []]]\<rparr>"

definition pending_app :: app_state where
  "pending_app =
     demo_app\<lparr>currentLang := ascii ''en'', clock := 40,
              timers := [(150, SwitchTask (ascii ''ar''))]\<rparr>"

section \<open>Strings\<close>

lemma of_char_word_eq_iff [simp]: "(of_char c :: 16 word) = of_char d \<longleftrightarrow> c = d"
proof
  assume h: "(of_char c :: 16 word) = of_char d"
  have u: "unat (of_char x :: 16 word) = of_char x" for x
  proof -
    have "(of_char x :: 16 word) = of_nat (of_char x)" by (simp add: of_nat_of_char)
    moreover have "(of_char x :: nat) < 2 ^ 16"
    proof -
      have "(of_char x :: nat) mod 256 < 256" by (rule mod_less_divisor) simp
      then have "(of_char x :: nat) < 256" by simp
      then show ?thesis by (rule less_trans) simp
    qed
    ultimately show ?thesis by (simp add: unat_of_nat)
  qed
  from h have "unat (of_char c :: 16 word) = unat (of_char d :: 16 word)" by simp
  then show "c = d" by (simp add: u)
qed simp

lemma ascii_eq_iff [simp]: "ascii s = ascii t \<longleftrightarrow> s = t"
  by (simp add: ascii_def inj_def)

lemma ascii_Nil [simp]: "ascii s = [] \<longleftrightarrow> s = []" "[] = ascii s \<longleftrightarrow> s = []"
  by (auto simp: ascii_def)

lemma ascii_empty [simp]: "ascii [] = []"
  by (simp add: ascii_def)

lemma trim_empty [simp]: "trim [] = []"
  by (simp add: trim_def)

lemma length_ascii [simp]: "length (ascii s) = length s"
  by (simp add: ascii_def)

lemma lower_placeholder [simp]: "map lower (ascii ''placeholder'') = ascii ''placeholder''"
  by (simp add: ascii_def lower_def)

section \<open>The gallery cursor\<close>

lemma js_rem_nonneg:
  "0 \<le> a \<Longrightarrow> 0 < n \<Longrightarrow> js_rem (Num a) (Num n) = Num (a mod n)"
  by (simp add: sgn_if)

lemma showLightboxImage_in_range:
  assumes "currentImageIndex g = Num j" "0 \<le> j" "j < int (length (galleryImages g))"
  shows "\<exists>g'. showLightboxImage g = Return () g' \<and> currentImageIndex g' = Num j
          \<and> galleryImages g' = galleryImages g"
  using assms by (auto simp: showLightboxImage_def)

lemma lightboxNext_click_step:
  assumes "currentImageIndex g = Num i" "0 \<le> i" "i < int (length (galleryImages g))"
  shows "\<exists>g'. lightboxNext_click g = Return () g'
          \<and> currentImageIndex g' = Num ((i + 1) mod int (length (galleryImages g)))
          \<and> galleryImages g' = galleryImages g"
proof -
  let ?n = "int (length (galleryImages g))"
  let ?h = "g\<lparr>currentImageIndex := Num ((i + 1) mod ?n)\<rparr>"
  from assms have n: "0 < ?n" by linarith
  have "lightboxNext_click g = showLightboxImage ?h"
    using assms n by (simp add: lightboxNext_click_def Let_def js_rem_nonneg del: js_rem.simps)
  moreover have "\<exists>g'. showLightboxImage ?h = Return () g'
          \<and> currentImageIndex g' = Num ((i + 1) mod ?n)
          \<and> galleryImages g' = galleryImages ?h"
    using n by (intro showLightboxImage_in_range) simp_all
  ultimately show ?thesis by simp
qed

lemma lightboxPrev_click_step:
  assumes "currentImageIndex g = Num i" "0 \<le> i" "i < int (length (galleryImages g))"
  shows "\<exists>g'. lightboxPrev_click g = Return () g'
          \<and> currentImageIndex g' = Num ((i - 1) mod int (length (galleryImages g)))
          \<and> galleryImages g' = galleryImages g"
proof -
  let ?n = "int (length (galleryImages g))"
  let ?h = "g\<lparr>currentImageIndex := Num ((i - 1) mod ?n)\<rparr>"
  from assms have n: "0 < ?n" by linarith
  have "0 \<le> i - 1 + ?n" using assms by linarith
  then have "js_rem (Num (i - 1 + ?n)) (Num ?n) = Num ((i - 1) mod ?n)"
    using n by (simp add: js_rem_nonneg del: js_rem.simps)
  then have "lightboxPrev_click g = showLightboxImage ?h"
    using assms by (simp add: lightboxPrev_click_def Let_def del: js_rem.simps)
  moreover have "\<exists>g'. showLightboxImage ?h = Return () g'
          \<and> currentImageIndex g' = Num ((i - 1) mod ?n)
          \<and> galleryImages g' = galleryImages ?h"
    using n by (intro showLightboxImage_in_range) simp_all
  ultimately show ?thesis by simp
qed

lemma clicks_next:
  assumes "currentImageIndex g = Num i" "0 \<le> i" "i < int (length (galleryImages g))"
  shows "\<exists>g'. clicks k lightboxNext_click g = Return () g'
          \<and> currentImageIndex g' = Num ((i + int k) mod int (length (galleryImages g)))
          \<and> galleryImages g' = galleryImages g"
  using assms
proof (induction k arbitrary: g i)
  case 0
  then show ?case by simp
next
  case (Suc k)
  let ?n = "int (length (galleryImages g))"
  from Suc.prems have n: "0 < ?n" by linarith
  from lightboxNext_click_step [OF Suc.prems] obtain g1 where
    g1: "lightboxNext_click g = Return () g1" "currentImageIndex g1 = Num ((i + 1) mod ?n)"
        "galleryImages g1 = galleryImages g" by blast
  have "\<exists>g'. clicks k lightboxNext_click g1 = Return () g'
          \<and> currentImageIndex g' = Num (((i + 1) mod ?n + int k) mod int (length (galleryImages g1)))
          \<and> galleryImages g' = galleryImages g1"
    using g1 n by (intro Suc.IH) simp_all
  moreover have "((i + 1) mod ?n + int k) mod ?n = (i + int (Suc k)) mod ?n"
  proof -
    have "((i + 1) mod ?n + int k) mod ?n = (i + 1 + int k) mod ?n"
      by (rule mod_add_left_eq)
    also have "i + 1 + int k = i + int (Suc k)" by simp
    finally show ?thesis .
  qed
  ultimately show ?case using g1 by (simp del: of_nat_Suc)
qed

text \<open>
  C6. On a gallery of \<open>N \<ge> 1\<close> images with the cursor at \<open>i\<close>, \<open>0 \<le> i < N\<close>, a click on
  next moves the cursor to \<open>(i + 1) mod N\<close> and a click on previous to \<open>(i - 1) mod N\<close>,
  both again in \<open>[0, N - 1]\<close> and without an exception; \<open>N\<close> clicks on next bring the
  cursor back to \<open>i\<close>.
\<close>

theorem gallery_navigation_wraps:
  assumes "currentImageIndex g = Num i" and "0 \<le> i" and "i < int (length (galleryImages g))"
  shows "(\<exists>g' j. lightboxNext_click g = Return () g' \<and> currentImageIndex g' = Num j
            \<and> j = (i + 1) mod int (length (galleryImages g))
            \<and> 0 \<le> j \<and> j < int (length (galleryImages g)))
       \<and> (\<exists>g' j. lightboxPrev_click g = Return () g' \<and> currentImageIndex g' = Num j
            \<and> j = (i - 1) mod int (length (galleryImages g))
            \<and> 0 \<le> j \<and> j < int (length (galleryImages g)))
       \<and> (\<exists>g'. clicks (length (galleryImages g)) lightboxNext_click g = Return () g'
            \<and> currentImageIndex g' = Num i)"
proof (intro conjI)
  from assms have n: "0 < int (length (galleryImages g))" by linarith
  from lightboxNext_click_step [OF assms] n
  show "\<exists>g' j. lightboxNext_click g = Return () g' \<and> currentImageIndex g' = Num j
            \<and> j = (i + 1) mod int (length (galleryImages g))
            \<and> 0 \<le> j \<and> j < int (length (galleryImages g))"
    by (metis pos_mod_bound pos_mod_sign)
  from lightboxPrev_click_step [OF assms] n
  show "\<exists>g' j. lightboxPrev_click g = Return () g' \<and> currentImageIndex g' = Num j
            \<and> j = (i - 1) mod int (length (galleryImages g))
            \<and> 0 \<le> j \<and> j < int (length (galleryImages g))"
    by (metis pos_mod_bound pos_mod_sign)
  from clicks_next [OF assms, of "length (galleryImages g)"] assms
  show "\<exists>g'. clicks (length (galleryImages g)) lightboxNext_click g = Return () g'
            \<and> currentImageIndex g' = Num i"
    by auto
qed

theorem gallery_navigation_wraps_witness:
  "currentImageIndex demo_gallery = Num 2 \<and> length (galleryImages demo_gallery) = 3
   \<and> (\<exists>g'. lightboxNext_click demo_gallery = Return () g' \<and> currentImageIndex g' = Num 0)
   \<and> (\<exists>g'. lightboxPrev_click demo_gallery = Return () g' \<and> currentImageIndex g' = Num 1)
   \<and> (\<exists>g'. clicks 3 lightboxNext_click demo_gallery = Return () g' \<and> currentImageIndex g' = Num 2)"
proof -
  have a: "currentImageIndex demo_gallery = Num 2" by (simp add: demo_gallery_def)
  have n: "length (galleryImages demo_gallery) = 3" by (simp add: demo_gallery_def)
  have b: "(2::int) < int (length (galleryImages demo_gallery))" by (simp add: n)
  from gallery_navigation_wraps [OF a _ b] show ?thesis using a n by simp
qed

text \<open>
  C7, as the claim states it, fails: on an empty gallery with the cursor at 0 a click on
  next (or previous) returns without an exception, but the cursor is \<open>NaN\<close> afterwards,
  since \<open>(0 + 1) % 0\<close> is \<open>NaN\<close>.
\<close>

theorem empty_gallery_cursor_counterexample:
  "galleryImages empty_gallery = []
   \<and> lightboxNext_click empty_gallery = Return () (empty_gallery\<lparr>currentImageIndex := NaN\<rparr>)
   \<and> lightboxPrev_click empty_gallery = Return () (empty_gallery\<lparr>currentImageIndex := NaN\<rparr>)
   \<and> currentImageIndex (empty_gallery\<lparr>currentImageIndex := NaN\<rparr>)
       \<noteq> currentImageIndex empty_gallery"
  by (simp add: empty_gallery_def lightboxNext_click_def lightboxPrev_click_def
        showLightboxImage_def)

text \<open>
  C7, amended. On an empty gallery a click on next or previous raises no exception and
  changes nothing but the cursor, which becomes \<open>NaN\<close>: the image list and the lightbox
  image, its alternative text and the caption stay as they were. \<open>showLightboxImage\<close>
  alone changes nothing at all.
\<close>

theorem empty_gallery_navigation:
  assumes "galleryImages g = []"
  shows "lightboxNext_click g = Return () (g\<lparr>currentImageIndex := NaN\<rparr>)
       \<and> lightboxPrev_click g = Return () (g\<lparr>currentImageIndex := NaN\<rparr>)
       \<and> showLightboxImage g = Return () g"
  using assms
  by (cases "currentImageIndex g")
     (simp_all add: lightboxNext_click_def lightboxPrev_click_def showLightboxImage_def)

theorem empty_gallery_navigation_witness:
  "galleryImages empty_gallery = []
   \<and> lightboxNext_click empty_gallery = Return () (empty_gallery\<lparr>currentImageIndex := NaN\<rparr>)
   \<and> lightboxPrev_click empty_gallery = Return () (empty_gallery\<lparr>currentImageIndex := NaN\<rparr>)
   \<and> showLightboxImage empty_gallery = Return () empty_gallery"
  using empty_gallery_navigation [of empty_gallery] by (simp add: empty_gallery_def)

section \<open>Form validation\<close>

lemma js_get_errorMessages:
  assumes "lang = ascii ''en'' \<or> lang = ascii ''ar''"
  shows "\<exists>ms. map_of errorMessages lang = Some ms \<and> js_get errorMessages lang = Own ms"
  using assms by (auto simp: js_get_def errorMessages_def)

lemma message_supported:
  assumes "map_of errorMessages lang = Some ms"
  shows "message lang m = Inr (m ms)"
  using assms by (simp add: message_def js_get_def)

lemma check_supported:
  assumes "map_of errorMessages lang = Some ms"
  shows "check c lang m (Inr a) = Inr (if c then (False, m ms) else a)"
  using assms by (simp add: check_def message_supported)

lemma validateField_verdict:
  assumes "map_of errorMessages lang = Some ms"
  shows "validateField lang g =
     (case verdict ms (the_field g) of
        Some t \<Rightarrow> Return False (rejected lang t g)
      | None \<Rightarrow> Return True (accepted g))"
  unfolding validateField_def Let_def check_supported [OF assms] verdict_def rejected_def
    accepted_def without_first_def
  by (cases g) (simp split: if_splits)

lemma verdict_classes [simp]: "verdict ms (f\<lparr>field_classes := c\<rparr>) = verdict ms f"
  by (simp add: verdict_def Let_def cong: if_cong)

lemma verdict_invalid_case: "verdict ms f \<noteq> None \<longleftrightarrow> invalid_case f"
  by (simp add: verdict_def invalid_case_def Let_def)

lemma verdict_message:
  "verdict ms f = Some t \<Longrightarrow> t \<in> {msg_required ms, msg_email ms, msg_select ms, msg_minLength ms}"
  by (simp add: verdict_def Let_def split: if_splits)

lemma rejected_again:
  "length (error_nodes g) \<le> 1 \<Longrightarrow> rejected lang t (rejected lang t g) = rejected lang t g"
  by (cases "error_nodes g") (simp_all add: rejected_def without_first_def insert_absorb)

lemma accepted_again:
  "length (error_nodes g) \<le> 1 \<Longrightarrow> accepted (accepted g) = accepted g"
  by (cases "error_nodes g") (simp_all add: accepted_def without_first_def)

lemma rejected_nodes:
  "length (error_nodes g) \<le> 1 \<Longrightarrow> error_nodes (rejected lang t g) =
     [\<lparr>node_text_align = (if lang = ascii ''ar'' then ''right'' else ''left''), node_text = t\<rparr>]"
  by (cases "error_nodes g") (simp_all add: rejected_def without_first_def)

lemma accepted_nodes: "length (error_nodes g) \<le> 1 \<Longrightarrow> error_nodes (accepted g) = []"
  by (cases "error_nodes g") (simp_all add: accepted_def without_first_def)

text \<open>
  C5. With the current language \<open>en\<close> or \<open>ar\<close> and at most one message node beside the
  field (none on the page as loaded, and never more after a call), one call of
  \<open>validateField\<close> on a field in one of the invalid cases returns false, leaves exactly one
  message node, whose text is one of the four messages of the language, and marks the field
  with the class \<open>error\<close>; on any other field it returns true and leaves no message node and
  no \<open>error\<close> class. Calling it again on the result changes nothing, so repeated calls
  leave zero or one node.
\<close>

theorem validateField_reports:
  assumes "lang = ascii ''en'' \<or> lang = ascii ''ar''" and "length (error_nodes g) \<le> 1"
  shows "\<exists>ms. map_of errorMessages lang = Some ms \<and>
     (if invalid_case (the_field g)
      then (\<exists>g' n. validateField lang g = Return False g' \<and> error_nodes g' = [n]
              \<and> node_text n \<in> {msg_required ms, msg_email ms, msg_select ms, msg_minLength ms}
              \<and> ''error'' \<in> field_classes (the_field g')
              \<and> validateField lang g' = Return False g')
      else (\<exists>g'. validateField lang g = Return True g' \<and> error_nodes g' = []
              \<and> ''error'' \<notin> field_classes (the_field g')
              \<and> validateField lang g' = Return True g'))"
proof -
  from js_get_errorMessages [OF assms(1)] obtain ms where ms: "map_of errorMessages lang = Some ms"
    by blast
  note vf = validateField_verdict [OF ms]
  show ?thesis
  proof (cases "verdict ms (the_field g)")
    case None
    then have valid: "\<not> invalid_case (the_field g)"
      using verdict_invalid_case [of ms "the_field g"] by simp
    have 1: "validateField lang g = Return True (accepted g)"
      by (simp add: vf None)
    have "verdict ms (the_field (accepted g)) = None"
      by (simp add: accepted_def None)
    then have 2: "validateField lang (accepted g) = Return True (accepted g)"
      by (simp add: vf accepted_again [OF assms(2)])
    have 3: "''error'' \<notin> field_classes (the_field (accepted g))"
      by (simp add: accepted_def)
    from ms valid 1 2 3 accepted_nodes [OF assms(2)] show ?thesis by auto
  next
    case (Some t)
    then have invalid: "invalid_case (the_field g)"
      using verdict_invalid_case [of ms "the_field g"] by simp
    have 1: "validateField lang g = Return False (rejected lang t g)"
      by (simp add: vf Some)
    have "verdict ms (the_field (rejected lang t g)) = Some t"
      by (simp add: rejected_def Some)
    then have 2: "validateField lang (rejected lang t g) = Return False (rejected lang t g)"
      by (simp add: vf rejected_again [OF assms(2)])
    have 3: "''error'' \<in> field_classes (the_field (rejected lang t g))"
      by (simp add: rejected_def)
    from ms invalid 1 2 3 rejected_nodes [OF assms(2), of lang t] verdict_message [OF Some]
    show ?thesis by auto
  qed
qed

theorem validateField_reports_witness:
  "length (error_nodes (text_field ''TEXTAREA'' ''textarea'' True ''hello'')) \<le> 1
   \<and> invalid_case (the_field (text_field ''TEXTAREA'' ''textarea'' True ''hello''))
   \<and> (\<exists>g' n. validateField (ascii ''en'') (text_field ''TEXTAREA'' ''textarea'' True ''hello'')
                 = Return False g'
          \<and> error_nodes g' = [n] \<and> ''error'' \<in> field_classes (the_field g')
          \<and> validateField (ascii ''en'') g' = Return False g')"
proof -
  let ?g = "text_field ''TEXTAREA'' ''textarea'' True ''hello''"
  have n: "length (error_nodes ?g) \<le> 1" by (simp add: text_field_def)
  have i: "invalid_case (the_field ?g)"
    by (simp add: invalid_case_def text_field_def trim_def ascii_def is_ws_def)
  from validateField_reports [of "ascii ''en''" ?g] n i show ?thesis by auto
qed

lemma displayed_message_verdict:
  assumes "map_of errorMessages lang = Some ms"
  shows "displayed_message lang g = verdict ms (the_field g)"
  by (simp add: displayed_message_def validateField_verdict [OF assms] rejected_def
        split: option.splits)

text \<open>
  C10, as the claim states it, fails: a required \<open>select\<close> with an empty value is given
  the message of the select rule, not the required-field message.
\<close>

theorem required_select_message_counterexample:
  "field_required (the_field (text_field ''SELECT'' ''select-one'' True []))
   \<and> trim (field_value (the_field (text_field ''SELECT'' ''select-one'' True []))) = []
   \<and> displayed_message (ascii ''en'') (text_field ''SELECT'' ''select-one'' True [])
       = Some (ascii ''Please select an option'')
   \<and> ascii ''Please select an option'' \<noteq> ascii ''This field is required''"
proof -
  have ms: "map_of errorMessages (ascii ''en'') =
     Some \<lparr>msg_required = ascii ''This field is required'',
           msg_email = ascii ''Please enter a valid email address'',
           msg_select = ascii ''Please select an option'',
           msg_minLength = ascii ''Please provide at least 10 characters''\<rparr>"
    by (simp add: errorMessages_def)
  show ?thesis
    by (simp add: displayed_message_verdict [OF ms] verdict_def text_field_def Let_def)
qed

text \<open>
  C10, amended. With the current language \<open>en\<close> or \<open>ar\<close>, the message displayed is the one
  of the last failing check in the order email, required, select, minimum length. So a
  required field with an empty (trimmed) value gets the required-field message whatever
  its type, unless it is a \<open>select\<close>, which gets the select message; and a field that is
  empty and not required gets no message: the email and minimum-length checks fire on
  non-empty values only.
\<close>

theorem validateField_message_precedence:
  assumes "lang = ascii ''en'' \<or> lang = ascii ''ar''"
  shows "\<exists>ms. map_of errorMessages lang = Some ms \<and>
     (let f = the_field g; v = trim (field_value f)
      in displayed_message lang g =
           (if field_tagName f = ''TEXTAREA'' \<and> v \<noteq> [] \<and> length v < 10 then Some (msg_minLength ms)
            else if field_tagName f = ''SELECT'' \<and> field_required f \<and> v = [] then Some (msg_select ms)
            else if field_required f \<and> v = [] then Some (msg_required ms)
            else if field_type f = ''email'' \<and> v \<noteq> [] \<and> \<not> rx_match emailPattern v
                 then Some (msg_email ms)
            else None)
       \<and> (field_required f \<and> v = [] \<longrightarrow>
            displayed_message lang g =
              Some (if field_tagName f = ''SELECT'' then msg_select ms else msg_required ms))
       \<and> (\<not> field_required f \<and> v = [] \<longrightarrow> displayed_message lang g = None))"
proof -
  from js_get_errorMessages [OF assms(1)] obtain ms where ms: "map_of errorMessages lang = Some ms"
    by blast
  have "let f = the_field g; v = trim (field_value f)
      in displayed_message lang g =
           (if field_tagName f = ''TEXTAREA'' \<and> v \<noteq> [] \<and> length v < 10 then Some (msg_minLength ms)
            else if field_tagName f = ''SELECT'' \<and> field_required f \<and> v = [] then Some (msg_select ms)
            else if field_required f \<and> v = [] then Some (msg_required ms)
            else if field_type f = ''email'' \<and> v \<noteq> [] \<and> \<not> rx_match emailPattern v
                 then Some (msg_email ms)
            else None)
       \<and> (field_required f \<and> v = [] \<longrightarrow>
            displayed_message lang g =
              Some (if field_tagName f = ''SELECT'' then msg_select ms else msg_required ms))
       \<and> (\<not> field_required f \<and> v = [] \<longrightarrow> displayed_message lang g = None)"
    unfolding displayed_message_verdict [OF ms] verdict_def Let_def by simp
  with ms show ?thesis by blast
qed

theorem validateField_message_precedence_witness:
  "field_required (the_field (text_field ''INPUT'' ''email'' True ''  ''))
   \<and> trim (field_value (the_field (text_field ''INPUT'' ''email'' True ''  ''))) = []
   \<and> (\<exists>ms. map_of errorMessages (ascii ''ar'') = Some ms
         \<and> displayed_message (ascii ''ar'') (text_field ''INPUT'' ''email'' True ''  '')
             = Some (msg_required ms))"
proof -
  let ?g = "text_field ''INPUT'' ''email'' True ''  ''"
  have r: "field_required (the_field ?g)" by (simp add: text_field_def)
  have v: "trim (field_value (the_field ?g)) = []"
    by (simp add: text_field_def trim_def ascii_def is_ws_def)
  have t: "field_tagName (the_field ?g) \<noteq> ''SELECT''" by (simp add: text_field_def)
  from validateField_message_precedence [of "ascii ''ar''" ?g] r v t show ?thesis
    by (auto simp: Let_def)
qed

section \<open>Applying and switching the language\<close>

lemmas lm_defs = applyLanguage_def updateSelectOptions_def updateElementsWithDataAttributes_def
  updateLanguageButton_def setStoredLanguage_def updateGalleryData_def
  dispatch_languageChanged_def placeholders_listener_def setTimeout_def

text \<open>
  What holds of C1 in every state and for every language code, so for \<open>en\<close> and \<open>ar\<close>.
  \<open>applyLanguage\<close> (app.js) sets the \<open>lang\<close> attribute of the document to the language
  and its \<open>dir\<close> attribute to \<open>rtl\<close> if the language is \<open>ar\<close> and to \<open>ltr\<close> otherwise.
  \<open>applyTranslations\<close> (script.js) sets the \<open>dir\<close> attribute of the body the same way in
  every run; it sets \<open>dataset.currentLang\<close> to the language when it returns, and it
  returns unless \<open>localStorage.setItem\<close> throws.
\<close>

lemma apply_sets_direction:
  "html_lang (applyLanguage lang st) = Some lang
   \<and> html_dir (applyLanguage lang st) = Some (if lang = ascii ''ar'' then ascii ''rtl'' else ascii ''ltr'')
   \<and> (html_dir (applyLanguage lang st) = Some (ascii ''rtl'') \<longleftrightarrow> lang = ascii ''ar'')
   \<and> body_dir (state_of (applyTranslations eng tr lang p))
       = Some (if lang = ascii ''ar'' then ascii ''rtl'' else ascii ''ltr'')
   \<and> (body_dir (state_of (applyTranslations eng tr lang p)) = Some (ascii ''rtl'') \<longleftrightarrow> lang = ascii ''ar'')
   \<and> (case applyTranslations eng tr lang p of
         Return u p' \<Rightarrow> dataset_currentLang p' = Some lang \<and> \<not> set_throws (page_localStorage p)
       | Throw e p' \<Rightarrow> e = StorageError \<and> set_throws (page_localStorage p))"
  by (simp add: lm_defs applyTranslations_def state_of_def setItem_def Let_def)

text \<open>
  C1 fails in script.js for the language marker. On a page whose store refuses writes,
  \<open>initLanguageSwitcher\<close> applies \<open>en\<close> and throws; a click on the Arabic button then
  sets the direction to \<open>rtl\<close> and throws again, and \<open>dataset.currentLang\<close> has never been
  set.
\<close>

theorem stale_language_marker:
  "set_throws (page_localStorage private_page)
   \<and> (case initLanguageSwitcher demo_engine the_translations private_page of
         Return u p1 \<Rightarrow> False
       | Throw e p1 \<Rightarrow>
           (case applyTranslations demo_engine the_translations (ascii ''ar'') p1 of
              Return u p2 \<Rightarrow> False
            | Throw e' p2 \<Rightarrow> e' = StorageError \<and> body_dir p2 = Some (ascii ''rtl'')
                \<and> dataset_currentLang p2 = None))"
  by (simp add: private_page_def demo_page_def initLanguageSwitcher_def applyTranslations_def
        getItem_def setItem_def truthy_def Let_def)

text \<open>The event loop: which timer fires next, and what the run ends in.\<close>

lemma language_view_switch_callback: "language_view (switch_callback l st) = applied_view l"
  by (cases "lang_text st")
     (simp_all add: language_view_def applied_view_def switch_callback_def Let_def lm_defs
        setItem_def)

lemma timers_switch_callback:
  "timers (switch_callback lang st) = timers st @ [(clock st + 100, RemoveSwitchingTask)]"
  by (cases "lang_text st") (simp_all add: switch_callback_def Let_def lm_defs setItem_def)

lemma clock_switch_callback: "clock (switch_callback lang st) = clock st"
  by (cases "lang_text st") (simp_all add: switch_callback_def Let_def lm_defs setItem_def)

lemma next_timer_Nil [simp]: "next_timer [] = None"
  by (simp add: next_timer_def)

lemma minimal_exists:
  assumes "ts \<noteq> []"
  shows "\<exists>x\<in>set ts. list_all (\<lambda>u. fst x \<le> fst (u :: nat \<times> task)) ts"
proof -
  from assms have ne: "fst ` set ts \<noteq> {}" by simp
  have fin: "finite (fst ` set ts)" by simp
  from Min_in [OF fin ne] obtain x where x: "x \<in> set ts" "fst x = Min (fst ` set ts)" by auto
  have "\<forall>u\<in>set ts. fst x \<le> fst u"
    using x(2) fin by (simp add: Min_le)
  with x(1) show ?thesis by (auto simp: list_all_iff)
qed

lemma next_timer_None_iff: "next_timer ts = None \<longleftrightarrow> ts = []"
proof
  assume n: "next_timer ts = None"
  show "ts = []"
  proof (rule ccontr)
    assume "ts \<noteq> []"
    from minimal_exists [OF this] obtain x where "x \<in> set ts"
      "list_all (\<lambda>u. fst x \<le> fst u) ts" by blast
    then have "find (\<lambda>t. list_all (\<lambda>u. fst t \<le> fst u) ts) ts \<noteq> None"
      unfolding find_None_iff by blast
    with n show False by (simp add: next_timer_def split: option.splits)
  qed
qed simp

lemma next_timer_Some:
  assumes "next_timer ts = Some (x, rest)"
  shows "rest = remove1 x ts"
    and "\<exists>i<length ts. ts ! i = x \<and> (\<forall>u\<in>set ts. fst x \<le> fst u)
           \<and> (\<forall>j<i. \<not> list_all (\<lambda>u. fst (ts ! j) \<le> fst u) ts)"
proof -
  from assms have f: "find (\<lambda>t. list_all (\<lambda>u. fst t \<le> fst u) ts) ts = Some x"
    and r: "rest = remove1 x ts"
    by (auto simp: next_timer_def split: option.splits)
  show "rest = remove1 x ts" by (rule r)
  from f show "\<exists>i<length ts. ts ! i = x \<and> (\<forall>u\<in>set ts. fst x \<le> fst u)
           \<and> (\<forall>j<i. \<not> list_all (\<lambda>u. fst (ts ! j) \<le> fst u) ts)"
    unfolding find_Some_iff by (auto simp: list_all_iff)
qed

lemma timers_run_task:
  "timers (run_task t (st\<lparr>clock := c, timers := rest\<rparr>))
     = rest @ (case t of SwitchTask l \<Rightarrow> [(c + 100, RemoveSwitchingTask)]
                       | RemoveSwitchingTask \<Rightarrow> [])"
  by (cases t) (simp_all add: timers_switch_callback)

lemma run_timers_only_removals:
  assumes "\<forall>x\<in>set (timers st). snd x = RemoveSwitchingTask"
  shows "language_view (run_timers st) = language_view st \<and> timers (run_timers st) = []"
  using assms
proof (induction st rule: run_timers.induct)
  case (1 st)
  show ?case
  proof (cases "next_timer (timers st)")
    case None
    then have "timers st = []" by (simp add: next_timer_None_iff)
    with None show ?thesis by (subst (1 2) run_timers.simps) simp
  next
    case (Some a)
    obtain due t rest where a: "a = ((due, t), rest)" by (metis surj_pair)
    from Some a have nt: "next_timer (timers st) = Some ((due, t), rest)" by simp
    let ?st' = "run_task t (st\<lparr>clock := max (clock st) due, timers := rest\<rparr>)"
    from next_timer_Some [OF nt] have rest: "rest = remove1 (due, t) (timers st)"
      and mem: "(due, t) \<in> set (timers st)" by (auto simp: in_set_conv_nth)
    from mem "1.prems" have t: "t = RemoveSwitchingTask" by auto
    have ts': "timers ?st' = rest" by (simp add: timers_run_task t)
    have "\<forall>x\<in>set rest. snd x = RemoveSwitchingTask"
      unfolding rest using "1.prems" set_remove1_subset [of "(due, t)" "timers st"] by blast
    then have "\<forall>x\<in>set (timers ?st'). snd x = RemoveSwitchingTask"
      by (simp only: ts')
    from "1.IH" [OF Some a [symmetric] refl this]
    have "language_view (run_timers ?st') = language_view ?st' \<and> timers (run_timers ?st') = []" .
    moreover have "language_view ?st' = language_view st" by (simp add: t language_view_def)
    moreover have "run_timers st = run_timers ?st'"
      by (subst run_timers.simps) (simp add: nt)
    ultimately show ?thesis by simp
  qed
qed

lemma run_timers_last_switch:
  assumes "timers st = pre @ (d, SwitchTask l) # post"
    and "\<forall>x\<in>set pre. fst x \<le> d"
    and "\<forall>x\<in>set post. snd x = RemoveSwitchingTask"
  shows "language_view (run_timers st) = applied_view l \<and> timers (run_timers st) = []"
  using assms
proof (induction st arbitrary: pre post rule: run_timers.induct)
  case (1 st)
  from "1.prems"(1) have "timers st \<noteq> []" by simp
  then obtain a where Some: "next_timer (timers st) = Some a"
    using next_timer_None_iff [of "timers st"] by (cases "next_timer (timers st)") auto
  obtain due t rest where a: "a = ((due, t), rest)" by (metis surj_pair)
  from Some a have nt: "next_timer (timers st) = Some ((due, t), rest)" by simp
  let ?c = "max (clock st) due"
  let ?st' = "run_task t (st\<lparr>clock := ?c, timers := rest\<rparr>)"
  have step: "run_timers st = run_timers ?st'"
    by (subst run_timers.simps) (simp add: nt)
  from next_timer_Some [OF nt] obtain i where rest: "rest = remove1 (due, t) (timers st)"
    and i: "i < length (timers st)" "timers st ! i = (due, t)"
    and least: "\<forall>u\<in>set (timers st). due \<le> fst u"
    and first: "\<forall>j<i. \<not> list_all (\<lambda>u. fst (timers st ! j) \<le> fst u) (timers st)"
    by auto
  let ?tail = "case t of SwitchTask l' \<Rightarrow> [(?c + 100, RemoveSwitchingTask)]
                       | RemoveSwitchingTask \<Rightarrow> []"
  have ts': "timers ?st' = rest @ ?tail" by (rule timers_run_task)
  have tail: "\<forall>x\<in>set ?tail. snd x = RemoveSwitchingTask" by (cases t) simp_all
  note IH = "1.IH" [OF Some a [symmetric] refl]
  show ?case
  proof (cases "(due, t) \<in> set pre")
    case True
    then have "rest = remove1 (due, t) pre @ (d, SwitchTask l) # post"
      unfolding rest "1.prems"(1) by (simp add: remove1_append)
    then have "timers ?st' = remove1 (due, t) pre @ (d, SwitchTask l) # (post @ ?tail)"
      unfolding ts' by simp
    moreover have "\<forall>x\<in>set (remove1 (due, t) pre). fst x \<le> d"
      using "1.prems"(2) set_remove1_subset [of "(due, t)" pre] by blast
    moreover have "\<forall>x\<in>set (post @ ?tail). snd x = RemoveSwitchingTask"
      using "1.prems"(3) tail by auto
    ultimately show ?thesis unfolding step by (rule IH)
  next
    case False
    show ?thesis
    proof (cases "(due, t) = (d, SwitchTask l)")
      case True
      have "pre = []"
      proof (rule ccontr)
        assume ne: "pre \<noteq> []"
        then have p0: "timers st ! 0 = pre ! 0" "pre ! 0 \<in> set pre"
          unfolding "1.prems"(1) by (simp_all add: nth_append)
        have "list_all (\<lambda>u. fst (timers st ! 0) \<le> fst u) (timers st)"
          unfolding list_all_iff
        proof
          fix u assume "u \<in> set (timers st)"
          with least have "due \<le> fst u" by simp
          moreover from p0 "1.prems"(2) have "fst (timers st ! 0) \<le> d" by simp
          ultimately show "fst (timers st ! 0) \<le> fst u" using True by simp
        qed
        with first have "i = 0" by (cases i) auto
        with i p0 have "(due, t) \<in> set pre" by simp
        with False show False by simp
      qed
      with True have "rest = post" unfolding rest "1.prems"(1) by simp
      with True have ts'': "timers ?st' = post @ [(?c + 100, RemoveSwitchingTask)]"
        unfolding ts' by simp
      then have "\<forall>x\<in>set (timers ?st'). snd x = RemoveSwitchingTask"
        using "1.prems"(3) by simp
      from run_timers_only_removals [OF this]
      have "language_view (run_timers ?st') = language_view ?st' \<and> timers (run_timers ?st') = []" .
      moreover from True have "language_view ?st' = applied_view l"
        by (simp add: language_view_switch_callback)
      ultimately show ?thesis unfolding step by simp
    next
      case ne: False
      from i have "(due, t) \<in> set (timers st)" by (metis nth_mem)
      with False ne have inpost: "(due, t) \<in> set post"
        unfolding "1.prems"(1) by auto
      with "1.prems"(3) have t: "t = RemoveSwitchingTask" by auto
      from False ne have "rest = pre @ (d, SwitchTask l) # remove1 (due, t) post"
        unfolding rest "1.prems"(1) by (auto simp: remove1_append)
      then have eq: "timers ?st' = pre @ (d, SwitchTask l) # remove1 (due, t) post"
        unfolding ts' by (simp add: t)
      have "\<forall>x\<in>set (remove1 (due, t) post). snd x = RemoveSwitchingTask"
        using "1.prems"(3) set_remove1_subset [of "(due, t)" post] by blast
      from IH [OF eq "1.prems"(2) this] show ?thesis unfolding step .
    qed
  qed
qed

text \<open>A finished toggle: the timers have fired, the one of the toggle last among the
  switches.\<close>

lemma toggleLanguage_completes:
  assumes "timers_within st"
  shows "language_view (run_timers (toggleLanguage st))
           = applied_view (if currentLang st = ascii ''en'' then ascii ''ar'' else ascii ''en'')
       \<and> timers (run_timers (toggleLanguage st)) = []"
proof -
  let ?new = "if currentLang st = ascii ''en'' then ascii ''ar'' else ascii ''en''"
  have ne: "?new \<noteq> currentLang st" by simp
  have "timers (toggleLanguage st) = timers st @ (clock st + 150, SwitchTask ?new) # []"
    using ne by (simp add: toggleLanguage_def switchLanguage_def setTimeout_def Let_def)
  moreover have "\<forall>x\<in>set (timers st). fst x \<le> clock st + 150"
    using assms by (simp add: timers_within_def list_all_iff)
  moreover have "\<forall>x\<in>set []. snd x = RemoveSwitchingTask" by simp
  ultimately show ?thesis by (rule run_timers_last_switch)
qed

lemma timers_within_quiet: "timers st = [] \<Longrightarrow> timers_within st"
  by (simp add: timers_within_def)

text \<open>
  C2. From a state whose current language is \<open>en\<close> or \<open>ar\<close>, with whatever timers
  pending that the script can have set, a toggle that completes (the timers fire) changes
  the current language to the other one, and a second completed toggle brings it back.
  \<open>switchLanguage\<close> to the current language changes nothing.
\<close>

theorem toggle_twice_restores_language:
  assumes "currentLang st = ascii ''en'' \<or> currentLang st = ascii ''ar''" and "timers_within st"
  shows "currentLang (run_timers (toggleLanguage (run_timers (toggleLanguage st)))) = currentLang st
       \<and> currentLang (run_timers (toggleLanguage st))
           = (if currentLang st = ascii ''en'' then ascii ''ar'' else ascii ''en'')
       \<and> switchLanguage (currentLang st) st = st"
proof -
  let ?s1 = "run_timers (toggleLanguage st)"
  from toggleLanguage_completes [OF assms(2)]
  have 1: "currentLang ?s1 = (if currentLang st = ascii ''en'' then ascii ''ar'' else ascii ''en'')"
    and t1: "timers ?s1 = []" by (simp_all add: language_view_def applied_view_def)
  from toggleLanguage_completes [OF timers_within_quiet [OF t1]]
  have 2: "currentLang (run_timers (toggleLanguage ?s1))
             = (if currentLang ?s1 = ascii ''en'' then ascii ''ar'' else ascii ''en'')"
    by (simp add: language_view_def applied_view_def)
  from assms(1) show ?thesis unfolding 2 1 by (auto simp: switchLanguage_def)
qed

theorem toggle_twice_restores_language_witness:
  "currentLang pending_app = ascii ''en''
   \<and> timers pending_app = [(150, SwitchTask (ascii ''ar''))]
   \<and> currentLang (run_timers (toggleLanguage pending_app)) = ascii ''ar''
   \<and> currentLang (run_timers (toggleLanguage (run_timers (toggleLanguage pending_app))))
       = ascii ''en''"
proof -
  have c: "currentLang pending_app = ascii ''en''" by (simp add: pending_app_def)
  have t: "timers pending_app = [(150, SwitchTask (ascii ''ar''))]" by (simp add: pending_app_def)
  have w: "timers_within pending_app" by (simp add: timers_within_def pending_app_def)
  from toggle_twice_restores_language [of pending_app] c t w show ?thesis by simp
qed

text \<open>After a completed toggle the \<open>lang\<close> and \<open>dir\<close> attributes match the current
  language, and the pending timers stay within reach of the clock.\<close>

lemma completed_toggle_direction:
  assumes "timers_within st"
  shows "html_lang (run_timers (toggleLanguage st)) = Some (currentLang (run_timers (toggleLanguage st)))
       \<and> html_dir (run_timers (toggleLanguage st))
           = Some (if currentLang (run_timers (toggleLanguage st)) = ascii ''ar''
                   then ascii ''rtl'' else ascii ''ltr'')
       \<and> isRTL (run_timers (toggleLanguage st))
           = (currentLang (run_timers (toggleLanguage st)) = ascii ''ar'')"
  using toggleLanguage_completes [OF assms]
  by (simp add: language_view_def applied_view_def)

lemma timers_within_toggleLanguage:
  assumes "timers_within st"
  shows "timers_within (toggleLanguage st)"
  using assms
  by (simp add: timers_within_def toggleLanguage_def switchLanguage_def setTimeout_def Let_def)

lemma timers_within_step:
  assumes "next_timer (timers st) = Some ((due, t), rest)" and "timers_within st"
  shows "timers_within (run_task t (st\<lparr>clock := max (clock st) due, timers := rest\<rparr>))"
proof -
  from next_timer_Some(1) [OF assms(1)] have "set rest \<subseteq> set (timers st)"
    by (simp add: set_remove1_subset)
  with assms(2) have "\<forall>x\<in>set rest. fst x \<le> max (clock st) due + 150"
    by (fastforce simp: timers_within_def list_all_iff)
  then show ?thesis
    by (cases t) (simp_all add: timers_within_def list_all_iff timers_switch_callback
          clock_switch_callback)
qed

text \<open>
  C3 holds for app.js: when \<open>localStorage.setItem\<close> throws, \<open>setStoredLanguage\<close> catches
  the exception and logs a warning, and the delayed body of \<open>switchLanguage\<close> ends in the
  state it would have reached with a working store, but for the store and the console.
\<close>

lemma switch_callback_swallows_storage_failure:
  assumes "set_throws (localStorage st)"
  shows "switch_callback lang st =
     (switch_callback lang (st\<lparr>localStorage := (localStorage st)\<lparr>set_throws := False\<rparr>\<rparr>))
       \<lparr>localStorage := localStorage st,
        console := console st @ [Warn (ascii ''Could not save language preference''),
                                 Log (ascii ''Language switched to: '' @ lang)]\<rparr>"
  using assms
  by (cases "lang_text st") (simp_all add: switch_callback_def Let_def lm_defs setItem_def)

text \<open>
  C3 fails for script.js: \<open>applyTranslations\<close> calls \<open>localStorage.setItem\<close> outside any
  \<open>try\<close>. On a page whose store refuses writes, applying \<open>ar\<close> throws: the direction has
  been set, but the exception is not caught, nothing is logged and \<open>dataset.currentLang\<close>
  is not set.
\<close>

theorem applyTranslations_storage_failure:
  "set_throws (page_localStorage private_page)
   \<and> (case applyTranslations demo_engine the_translations (ascii ''ar'') private_page of
         Return u p' \<Rightarrow> False
       | Throw e p' \<Rightarrow> e = StorageError \<and> body_dir p' = Some (ascii ''rtl'')
           \<and> dataset_currentLang p' = None \<and> page_console p' = [])"
  by (simp add: private_page_def demo_page_def applyTranslations_def setItem_def Let_def)

text \<open>The language at initialization.\<close>

lemma getStoredLanguage_unchanged [simp]:
  "getStoredLanguage (st\<lparr>currentLang := l, isRTL := r\<rparr>) = getStoredLanguage st"
  by (simp add: getStoredLanguage_def)

lemma init_result:
  "currentLang (init st) = currentLang st \<and> applied (init st) = applied st @ [currentLang st]
   \<and> html_lang (init st) = Some (currentLang st)"
  by (cases "lang_text st") (simp_all add: init_def lm_defs)

lemma detectBrowserLanguage_locale:
  "detectBrowserLanguage st =
     (case browser_locale st of
        None \<Rightarrow> Inl TypeError
      | Some b \<Rightarrow> Inr (if startsWith b (ascii ''ar'') then ascii ''ar'' else ascii ''en''))"
  by (simp add: detectBrowserLanguage_def browser_locale_def Let_def)

lemma LanguageManager_new_stored:
  assumes "truthy (getStoredLanguage st)"
  shows "\<exists>st'. LanguageManager_new st = Return () st'
           \<and> currentLang st' = the (getStoredLanguage st)
           \<and> applied st' = applied st @ [currentLang st']
           \<and> html_lang st' = Some (currentLang st')"
  using assms by (simp add: LanguageManager_new_def Let_def init_result)

lemma LanguageManager_new_detected:
  assumes "\<not> truthy (getStoredLanguage st)" and "browser_locale st = Some b"
  shows "\<exists>st'. LanguageManager_new st = Return () st'
           \<and> currentLang st' = (if startsWith b (ascii ''ar'') then ascii ''ar'' else ascii ''en'')
           \<and> applied st' = applied st @ [currentLang st']
           \<and> html_lang st' = Some (currentLang st')"
  using assms
  by (simp add: LanguageManager_new_def Let_def init_result detectBrowserLanguage_locale)

lemma LanguageManager_new_without_locale:
  assumes "\<not> truthy (getStoredLanguage st)" and "browser_locale st = None"
  shows "LanguageManager_new st = Throw TypeError st"
  using assms by (simp add: LanguageManager_new_def Let_def detectBrowserLanguage_locale)

lemma translated_applyTranslations:
  "translated (state_of (applyTranslations eng tr lang p)) = translated p @ [lang]"
  by (simp add: applyTranslations_def state_of_def setItem_def Let_def)

lemma initLanguageSwitcher_resolved:
  assumes "\<not> get_throws (page_localStorage p)"
  shows "initLanguageSwitcher eng tr p =
     applyTranslations eng tr
       (resolved_language (items (page_localStorage p) (ascii ''preferredLanguage'')) None)
       (p\<lparr>i18nTranslations := Some tr\<rparr>)"
  using assms by (simp add: initLanguageSwitcher_def getItem_def resolved_language_def Let_def)

text \<open>When the store cannot be read, \<open>localStorage.getItem\<close> throws in
  \<open>initLanguageSwitcher\<close>, which has no \<open>try\<close> around it: no language is applied.\<close>

lemma initLanguageSwitcher_unreadable_store:
  assumes "get_throws (page_localStorage p)"
  shows "initLanguageSwitcher eng tr p = Throw StorageError (p\<lparr>i18nTranslations := Some tr\<rparr>)"
  using assms by (simp add: initLanguageSwitcher_def getItem_def Let_def)

text \<open>
  C4, as the claim states it, fails: script.js never reads the locale. With nothing stored
  and the locale \<open>ar-SA\<close> it applies \<open>en\<close>.
\<close>

theorem locale_ignored_counterexample:
  "page_navigator_language demo_page = Some (ascii ''ar-SA'')
   \<and> items (page_localStorage demo_page) (ascii ''preferredLanguage'') = None
   \<and> (case initLanguageSwitcher demo_engine the_translations demo_page of
         Return u p' \<Rightarrow> translated p' = [ascii ''en''] \<and> body_dir p' = Some (ascii ''ltr'')
           \<and> dataset_currentLang p' = Some (ascii ''en'')
       | Throw e p' \<Rightarrow> False)"
  by (simp add: demo_page_def initLanguageSwitcher_def applyTranslations_def getItem_def
        setItem_def truthy_def Let_def)

text \<open>
  C4, amended. app.js: when a non-empty preference can be read from the store, or the
  browser gives a locale, the constructor of \<open>LanguageManager\<close> returns with the current
  language resolved in this order: the stored preference, else \<open>ar\<close> if the locale starts
  with \<open>ar\<close>, else \<open>en\<close>; it has applied that language exactly once. script.js: when the
  store can be read, \<open>initLanguageSwitcher\<close> applies the stored preference if non-empty
  and \<open>en\<close> otherwise, exactly once, and records it in \<open>dataset.currentLang\<close> unless the
  write to the store throws.
\<close>

theorem initial_language_resolution:
  "(truthy (getStoredLanguage st) \<or> browser_locale st \<noteq> None \<longrightarrow>
      (\<exists>st'. LanguageManager_new st = Return () st'
         \<and> currentLang st' = resolved_language (getStoredLanguage st) (browser_locale st)
         \<and> applied st' = applied st @ [currentLang st']
         \<and> html_lang st' = Some (currentLang st')))
   \<and> (\<not> get_throws (page_localStorage p) \<longrightarrow>
        translated (state_of (initLanguageSwitcher eng tr p))
          = translated p @
              [resolved_language (items (page_localStorage p) (ascii ''preferredLanguage'')) None]
        \<and> (case initLanguageSwitcher eng tr p of
             Return u p' \<Rightarrow> dataset_currentLang p' =
               Some (resolved_language (items (page_localStorage p) (ascii ''preferredLanguage'')) None)
           | Throw e p' \<Rightarrow> e = StorageError \<and> set_throws (page_localStorage p)))"
proof (intro conjI impI)
  assume h: "truthy (getStoredLanguage st) \<or> browser_locale st \<noteq> None"
  show "\<exists>st'. LanguageManager_new st = Return () st'
         \<and> currentLang st' = resolved_language (getStoredLanguage st) (browser_locale st)
         \<and> applied st' = applied st @ [currentLang st']
         \<and> html_lang st' = Some (currentLang st')"
  proof (cases "truthy (getStoredLanguage st)")
    case True
    from LanguageManager_new_stored [OF True] show ?thesis
      by (simp add: resolved_language_def True)
  next
    case False
    with h obtain b where b: "browser_locale st = Some b" by auto
    from LanguageManager_new_detected [OF False b] show ?thesis
      by (simp add: resolved_language_def False b)
  qed
next
  assume g: "\<not> get_throws (page_localStorage p)"
  show "translated (state_of (initLanguageSwitcher eng tr p))
          = translated p @
              [resolved_language (items (page_localStorage p) (ascii ''preferredLanguage'')) None]"
    by (simp add: initLanguageSwitcher_resolved [OF g] translated_applyTranslations)
  show "case initLanguageSwitcher eng tr p of
             Return u p' \<Rightarrow> dataset_currentLang p' =
               Some (resolved_language (items (page_localStorage p) (ascii ''preferredLanguage'')) None)
           | Throw e p' \<Rightarrow> e = StorageError \<and> set_throws (page_localStorage p)"
    by (simp add: initLanguageSwitcher_resolved [OF g] applyTranslations_def setItem_def Let_def)
qed

theorem initial_language_resolution_witness:
  "browser_locale demo_app = Some (ascii ''ar-SA'')
   \<and> (\<exists>st'. LanguageManager_new demo_app = Return () st'
         \<and> currentLang st' = ascii ''ar'' \<and> applied st' = [ascii ''ar''])
   \<and> translated (state_of (initLanguageSwitcher demo_engine the_translations demo_page)) = [ascii ''en'']"
proof -
  have l: "browser_locale demo_app = Some (ascii ''ar-SA'')"
    by (simp add: browser_locale_def demo_app_def truthy_def)
  have s: "getStoredLanguage demo_app = None"
    by (simp add: getStoredLanguage_def getItem_def demo_app_def)
  have r: "resolved_language None (Some (ascii ''ar-SA'')) = ascii ''ar''"
    by (simp add: resolved_language_def truthy_def startsWith_def ascii_def)
  have r2: "resolved_language None None = ascii ''en''"
    by (simp add: resolved_language_def truthy_def)
  have a: "applied demo_app = []" by (simp add: demo_app_def)
  have g: "\<not> get_throws (page_localStorage demo_page)" by (simp add: demo_page_def)
  have i: "items (page_localStorage demo_page) (ascii ''preferredLanguage'') = None"
    by (simp add: demo_page_def)
  have t: "translated demo_page = []" by (simp add: demo_page_def)
  from initial_language_resolution [of demo_app demo_page demo_engine the_translations]
  show ?thesis
    by (auto simp add: l s r r2 a g i t)
qed
section \<open>Missing translations\<close>

text \<open>A run of \<open>forEach\<close> whose callback changes the element it is given and either keeps or
  empties what is inside it; two such runs in a row; and the node they leave at a position.\<close>

lemma forEach_local:
  assumes "\<And>e cs. f (Node e cs) = Node (g e) (if r e then [] else cs)"
  shows "forEach sel f n = map_prune (\<lambda>e. if sel e then g e else e) (\<lambda>e. sel e \<and> r e) n"
proof (induction n)
  case (Node e cs)
  then have "map (forEach sel f) cs
               = map (map_prune (\<lambda>e. if sel e then g e else e) (\<lambda>e. sel e \<and> r e)) cs"
    by simp
  then show ?case by (simp add: assms Let_def)
qed

lemma map_prune_comp:
  "map_prune g2 r2 (map_prune g1 r1 n) = map_prune (\<lambda>e. g2 (g1 e)) (\<lambda>e. r1 e \<or> r2 (g1 e)) n"
  by (induction n) simp

lemma node_at_map_prune:
  "node_at (map (map_prune g r) ns) p =
     (case node_at ns p of
        None \<Rightarrow> None
      | Some n \<Rightarrow> if list_ex r (around ns p) then None else Some (map_prune g r n))"
proof (induction p arbitrary: ns)
  case Nil
  show ?case by simp
next
  case (Cons i p)
  show ?case
  proof (cases "i < length ns")
    case False
    then show ?thesis by simp
  next
    case True
    obtain e cs where n: "ns ! i = Node e cs" by (cases "ns ! i")
    show ?thesis
    proof (cases "p = []")
      case True
      with \<open>i < length ns\<close> show ?thesis by simp
    next
      case False
      have a: "around ns (i # p) = e # around cs p"
        using \<open>i < length ns\<close> False n by simp
      have b: "node_at ns (i # p) = node_at cs p"
        using \<open>i < length ns\<close> False n by simp
      have c: "node_at (map (map_prune g r) ns) (i # p)
                 = node_at (if r e then [] else map (map_prune g r) cs) p"
        using \<open>i < length ns\<close> False n by simp
      have d: "node_at [] p = None" by (cases p) simp_all
      show ?thesis
        unfolding a b c using Cons.IH [of cs] d by (simp split: option.splits)
    qed
  qed
qed

lemma elem_map_prune [simp]: "elem (map_prune g r n) = g (elem n)"
  by (cases n) simp

text \<open>The callbacks of app.js and what \<open>applyLanguage\<close> does to the document.\<close>

lemmas setter_defs = set_textContent_def set_innerHTML_def set_attribute_def classList_toggle_def

lemma update_element_local:
  "update_element lang (Node e cs) =
     Node (elem (update_element lang (Node e [])))
          (if truthy (getAttribute (attrs e) (ascii ''data-'' @ lang))
              \<and> \<not> (tagName e = ''INPUT'' \<and> elem_type e \<noteq> ''submit'')
           then [] else cs)"
  by (auto simp: update_element_def setter_defs truthy_def split: option.splits)

lemma update_option_local:
  "update_option lang (Node e cs) =
     Node (elem (update_option lang (Node e [])))
          (if truthy (getAttribute (attrs e) (ascii ''data-'' @ lang)) then [] else cs)"
  by (simp add: update_option_def setter_defs truthy_def split: option.splits)

lemma both_passes_eq:
  "both_passes lang e
   = (let text = getAttribute (attrs e) (ascii ''data-'' @ lang)
      in if has_both e \<and> truthy text
         then (if tagName e = ''INPUT'' \<and> elem_type e \<noteq> ''submit''
               then setAttribute e (ascii ''placeholder'') (the text)
               else if tagName e \<noteq> ''OPTION'' \<and> js_includes (the text) (ascii ''<br>'')
                    then e\<lparr>content := Html (the text)\<rparr>
               else e\<lparr>content := Text (the text)\<rparr>)
         else e)"
proof (cases "getAttribute (attrs e) (ascii ''data-'' @ lang)")
  case None
  then show ?thesis
    by (simp add: both_passes_def update_element_def update_option_def truthy_def Let_def)
next
  case (Some s)
  show ?thesis
  proof (cases "s = []")
    case True
    with Some show ?thesis
      by (simp add: both_passes_def update_element_def update_option_def truthy_def Let_def)
  next
    case False
    with Some show ?thesis
      by (simp add: both_passes_def update_element_def update_option_def truthy_def Let_def
            has_both_def hasAttribute_def setAttribute_def setter_defs)
  qed
qed

lemma applyLanguage_elements:
  "elements (applyLanguage lang st)
     = map (map_prune (both_passes lang) (content_replaced lang)) (elements st)"
proof -
  let ?sel2 = "\<lambda>e. in_select e \<and> tagName e = ''OPTION'' \<and> has_both e"
  let ?t = "\<lambda>e. truthy (getAttribute (attrs e) (ascii ''data-'' @ lang))"
  let ?g1 = "\<lambda>e. if has_both e then elem (update_element lang (Node e [])) else e"
  let ?r1 = "\<lambda>e. has_both e \<and> ?t e \<and> \<not> (tagName e = ''INPUT'' \<and> elem_type e \<noteq> ''submit'')"
  let ?g2 = "\<lambda>e. if ?sel2 e then elem (update_option lang (Node e [])) else e"
  let ?r2 = "\<lambda>e. ?sel2 e \<and> ?t e"
  have 1: "forEach has_both (update_element lang) n = map_prune ?g1 ?r1 n" for n
    by (rule forEach_local) (rule update_element_local)
  have 2: "forEach ?sel2 (update_option lang) n = map_prune ?g2 ?r2 n" for n
    by (rule forEach_local) (rule update_option_local)
  have g: "(\<lambda>e. ?g2 (?g1 e)) = both_passes lang"
    by (rule ext) (auto simp add: both_passes_def 1 2 simp del: map_prune.simps)
  have r: "(\<lambda>e. ?r1 e \<or> ?r2 (?g1 e)) = content_replaced lang"
  proof (rule ext)
    fix e
    have [simp]: "tagName (setAttribute x k v) = tagName x" for x k v
      by (simp add: setAttribute_def)
    show "(?r1 e \<or> ?r2 (?g1 e)) = content_replaced lang e"
      by (cases "getAttribute (attrs e) (ascii ''data-'' @ lang)")
         (auto simp: content_replaced_def update_element_def setter_defs truthy_def
            has_both_def hasAttribute_def)
  qed
  have "elements (applyLanguage lang st)
          = map (\<lambda>n. map_prune ?g2 ?r2 (map_prune ?g1 ?r1 n)) (elements st)"
    by (simp add: lm_defs 1 2)
  then show ?thesis
    unfolding map_prune_comp g r .
qed

text \<open>The callbacks of script.js and what \<open>applyTranslations\<close> does to the document.\<close>

lemma select_dict_supported:
  assumes "lang = ascii ''en'' \<or> lang = ascii ''ar''"
  shows "select_dict tr lang = Catalog (if lang = ascii ''ar'' then tr_ar tr else tr_en tr)"
  using assms by (auto simp: select_dict_def js_get_def)

lemma dict_get_Catalog:
  "dict_get eng (Catalog c) k =
     (case map_of c k of
        Some t \<Rightarrow> if t = [] then None else Some t
      | None \<Rightarrow> if k \<in> set object_prototype_names then Some (native_text eng k) else None)"
  by (simp add: dict_get_def js_get_def split: option.splits)

lemma translate_text_local:
  "translate_text eng d (Node e cs) =
     Node (elem (translate_text eng d (Node e []))) (if text_replaced eng d e then [] else cs)"
  by (simp add: translate_text_def text_replaced_def setter_defs split: option.splits)

lemma translate_placeholder_local:
  "translate_placeholder eng d (Node e cs) =
     Node (elem (translate_placeholder eng d (Node e []))) (if False then [] else cs)"
  by (simp add: translate_placeholder_def setter_defs split: option.splits)

lemma highlight_button_local:
  "highlight_button lang (Node e cs) =
     Node (elem (highlight_button lang (Node e []))) (if False then [] else cs)"
  by (simp add: highlight_button_def setter_defs)

lemma applyTranslations_elements:
  "page_elements (state_of (applyTranslations eng tr lang p)) =
     map (map_prune (translate_element eng (select_dict tr lang) lang)
            (text_replaced eng (select_dict tr lang)))
         (page_elements p)"
proof -
  let ?d = "select_dict tr lang"
  let ?s1 = "\<lambda>e. hasAttribute e (ascii ''data-i18n'')"
  let ?s2 = "\<lambda>e. hasAttribute e (ascii ''data-placeholder-i18n'')"
  let ?s3 = "\<lambda>e. in_lang_selector e \<and> tagName e = ''BUTTON''"
  let ?g1 = "\<lambda>e. if ?s1 e then elem (translate_text eng ?d (Node e [])) else e"
  let ?r1 = "\<lambda>e. ?s1 e \<and> text_replaced eng ?d e"
  let ?g2 = "\<lambda>e. if ?s2 e then elem (translate_placeholder eng ?d (Node e [])) else e"
  let ?r2 = "\<lambda>e. ?s2 e \<and> False"
  let ?g3 = "\<lambda>e. if ?s3 e then elem (highlight_button lang (Node e [])) else e"
  let ?r3 = "\<lambda>e. ?s3 e \<and> False"
  have 1: "forEach ?s1 (translate_text eng ?d) n = map_prune ?g1 ?r1 n" for n
    by (rule forEach_local) (rule translate_text_local)
  have 2: "forEach ?s2 (translate_placeholder eng ?d) n = map_prune ?g2 ?r2 n" for n
    by (rule forEach_local) (rule translate_placeholder_local)
  have 3: "forEach ?s3 (highlight_button lang) n = map_prune ?g3 ?r3 n" for n
    by (rule forEach_local) (rule highlight_button_local)
  have g: "(\<lambda>e. ?g3 (?g2 (?g1 e))) = translate_element eng ?d lang"
    by (rule ext) (auto simp add: translate_element_def 1 2 3 simp del: map_prune.simps)
  have r: "(\<lambda>e. (?r1 e \<or> ?r2 (?g1 e)) \<or> ?r3 (?g2 (?g1 e))) = text_replaced eng ?d"
    by (rule ext) (auto simp: text_replaced_def hasAttribute_def split: option.splits)
  have "page_elements (state_of (applyTranslations eng tr lang p))
          = map (\<lambda>n. map_prune ?g3 ?r3 (map_prune ?g2 ?r2 (map_prune ?g1 ?r1 n))) (page_elements p)"
    by (simp add: applyTranslations_def state_of_def setItem_def Let_def 1 2 3
          del: map_prune.simps)
  then show ?thesis
    unfolding map_prune_comp g r .
qed

lemma content_translated:
  "content (translate_element eng d lang el)
     = (case attrs el (ascii ''data-i18n'') of
          None \<Rightarrow> content el
        | Some k \<Rightarrow> (case dict_get eng d k of None \<Rightarrow> content el | Some t \<Rightarrow> Text t))"
  by (simp add: translate_element_def highlight_button_def translate_placeholder_def
        translate_text_def setAttribute_def setter_defs hasAttribute_def Let_def
        split: option.splits)

lemma attrs_translated:
  "attrs (translate_element eng d lang el)
     = (case attrs el (ascii ''data-placeholder-i18n'') of
          None \<Rightarrow> attrs el
        | Some k \<Rightarrow> (case dict_get eng d k of
                       None \<Rightarrow> attrs el
                     | Some t \<Rightarrow> (attrs el)(ascii ''placeholder'' \<mapsto> t)))"
  by (simp add: translate_element_def highlight_button_def translate_placeholder_def
        translate_text_def setAttribute_def setter_defs hasAttribute_def Let_def
        split: option.splits)

lemma catalog_content:
  "(case attrs el (ascii ''data-i18n'') of
      None \<Rightarrow> content (translate_element eng (Catalog c) lang el) = content el
    | Some k \<Rightarrow>
        (case map_of c k of
           Some t \<Rightarrow> content (translate_element eng (Catalog c) lang el)
                       = (if t = [] then content el else Text t)
         | None \<Rightarrow> k \<notin> set object_prototype_names
                    \<longrightarrow> content (translate_element eng (Catalog c) lang el) = content el))"
  by (simp add: content_translated dict_get_Catalog split: option.splits)

lemma catalog_attrs:
  "(case attrs el (ascii ''data-placeholder-i18n'') of
      None \<Rightarrow> attrs (translate_element eng (Catalog c) lang el) = attrs el
    | Some k \<Rightarrow>
        (case map_of c k of
           Some t \<Rightarrow> attrs (translate_element eng (Catalog c) lang el)
                       = (if t = [] then attrs el else (attrs el)(ascii ''placeholder'' \<mapsto> t))
         | None \<Rightarrow> k \<notin> set object_prototype_names
                    \<longrightarrow> attrs (translate_element eng (Catalog c) lang el) = attrs el))"
  by (simp add: attrs_translated dict_get_Catalog split: option.splits)

text \<open>
  C8, as the claim states it, fails: app.js selects the elements that carry both
  \<open>data-en\<close> and \<open>data-ar\<close>. An element with \<open>data-en\<close> alone has a value for \<open>en\<close>, and
  applying \<open>en\<close> does not update it.
\<close>

theorem single_attribute_counterexample:
  "getAttribute (attrs english_only) (ascii ''data-'' @ ascii ''en'') = Some (ascii ''Welcome'')
   \<and> content english_only = Text (ascii ''Bienvenue'')
   \<and> elements (applyLanguage (ascii ''en'') (demo_app\<lparr>elements := [Node english_only []]\<rparr>))
       = [Node english_only []]"
  by (simp add: applyLanguage_elements both_passes_eq english_only_def has_both_def
        hasAttribute_def getAttribute_def ascii_def lower_def Let_def)

text \<open>
  C8, amended. app.js: applying a language updates a node when it carries both \<open>data-en\<close>
  and \<open>data-ar\<close> and its attribute for the language is non-empty: it sets the placeholder
  of an \<open>input\<close> that is not a submit button and otherwise replaces the content (by markup
  when the text contains \<open><br>\<close> and the element is not an \<open>option\<close>), and replacing the
  content of a node takes every node inside it out of the document. A node that is not
  inside a node whose content is replaced is updated in this way when it qualifies and is
  otherwise left as it was, also when its attribute for the language is absent or empty.
  script.js, for \<open>en\<close> and \<open>ar\<close>: a node that is not inside a node whose content is
  replaced gets the catalog text of its \<open>data-i18n\<close> key as content when that text is
  non-empty, and keeps its content when the text is empty or when the key is neither in
  the catalog nor the name of a member of \<open>Object.prototype\<close>; likewise for the
  placeholder and the \<open>data-placeholder-i18n\<close> key. A node inside a node whose content is
  replaced leaves the document.
\<close>

theorem translation_frame:
  "(node_at (elements st) p = Some n \<longrightarrow>
      (let e = elem n; text = getAttribute (attrs e) (ascii ''data-'' @ lang);
           n' = node_at (elements (applyLanguage lang st)) p
       in if list_ex (content_replaced lang) (around (elements st) p) then n' = None
          else map_option elem n'
               = Some (if has_both e \<and> truthy text
                       then (if tagName e = ''INPUT'' \<and> elem_type e \<noteq> ''submit''
                             then setAttribute e (ascii ''placeholder'') (the text)
                             else if tagName e \<noteq> ''OPTION'' \<and> js_includes (the text) (ascii ''<br>'')
                                  then e\<lparr>content := Html (the text)\<rparr>
                             else e\<lparr>content := Text (the text)\<rparr>)
                       else e)))
   \<and> ((lang = ascii ''en'' \<or> lang = ascii ''ar'') \<and> node_at (page_elements pg) q = Some m \<longrightarrow>
      (let el = elem m; c = (if lang = ascii ''ar'' then tr_ar tr else tr_en tr);
           m' = node_at (page_elements (state_of (applyTranslations eng tr lang pg))) q
       in if list_ex (text_replaced eng (Catalog c)) (around (page_elements pg) q) then m' = None
          else (\<exists>el'. map_option elem m' = Some el'
                 \<and> (case attrs el (ascii ''data-i18n'') of
                       None \<Rightarrow> content el' = content el
                     | Some k \<Rightarrow>
                         (case map_of c k of
                            Some t \<Rightarrow> content el' = (if t = [] then content el else Text t)
                          | None \<Rightarrow> k \<notin> set object_prototype_names \<longrightarrow> content el' = content el))
                 \<and> (case attrs el (ascii ''data-placeholder-i18n'') of
                       None \<Rightarrow> attrs el' = attrs el
                     | Some k \<Rightarrow>
                         (case map_of c k of
                            Some t \<Rightarrow> attrs el' = (if t = [] then attrs el
                                                   else (attrs el)(ascii ''placeholder'' \<mapsto> t))
                          | None \<Rightarrow> k \<notin> set object_prototype_names \<longrightarrow> attrs el' = attrs el)))))"
proof (intro conjI impI)
  assume n: "node_at (elements st) p = Some n"
  show "let e = elem n; text = getAttribute (attrs e) (ascii ''data-'' @ lang);
           n' = node_at (elements (applyLanguage lang st)) p
       in if list_ex (content_replaced lang) (around (elements st) p) then n' = None
          else map_option elem n'
               = Some (if has_both e \<and> truthy text
                       then (if tagName e = ''INPUT'' \<and> elem_type e \<noteq> ''submit''
                             then setAttribute e (ascii ''placeholder'') (the text)
                             else if tagName e \<noteq> ''OPTION'' \<and> js_includes (the text) (ascii ''<br>'')
                                  then e\<lparr>content := Html (the text)\<rparr>
                             else e\<lparr>content := Text (the text)\<rparr>)
                       else e)"
    by (simp add: applyLanguage_elements node_at_map_prune n both_passes_eq Let_def
          del: map_prune.simps)
next
  assume h: "(lang = ascii ''en'' \<or> lang = ascii ''ar'') \<and> node_at (page_elements pg) q = Some m"
  let ?c = "if lang = ascii ''ar'' then tr_ar tr else tr_en tr"
  from h have d: "select_dict tr lang = Catalog ?c"
    by (simp add: select_dict_supported)
  from h have m: "node_at (page_elements pg) q = Some m" by simp
  have m': "node_at (page_elements (state_of (applyTranslations eng tr lang pg))) q
              = (if list_ex (text_replaced eng (Catalog ?c)) (around (page_elements pg) q) then None
                 else Some (map_prune (translate_element eng (Catalog ?c) lang)
                              (text_replaced eng (Catalog ?c)) m))"
    by (simp add: applyTranslations_elements d node_at_map_prune m del: map_prune.simps)
  show "let el = elem m; c = (if lang = ascii ''ar'' then tr_ar tr else tr_en tr);
           m' = node_at (page_elements (state_of (applyTranslations eng tr lang pg))) q
       in if list_ex (text_replaced eng (Catalog c)) (around (page_elements pg) q) then m' = None
          else (\<exists>el'. map_option elem m' = Some el'
                 \<and> (case attrs el (ascii ''data-i18n'') of
                       None \<Rightarrow> content el' = content el
                     | Some k \<Rightarrow>
                         (case map_of c k of
                            Some t \<Rightarrow> content el' = (if t = [] then content el else Text t)
                          | None \<Rightarrow> k \<notin> set object_prototype_names \<longrightarrow> content el' = content el))
                 \<and> (case attrs el (ascii ''data-placeholder-i18n'') of
                       None \<Rightarrow> attrs el' = attrs el
                     | Some k \<Rightarrow>
                         (case map_of c k of
                            Some t \<Rightarrow> attrs el' = (if t = [] then attrs el
                                                   else (attrs el)(ascii ''placeholder'' \<mapsto> t))
                          | None \<Rightarrow> k \<notin> set object_prototype_names \<longrightarrow> attrs el' = attrs el)))"
  proof (cases "list_ex (text_replaced eng (Catalog ?c)) (around (page_elements pg) q)")
    case True
    then show ?thesis unfolding Let_def m' by simp
  next
    case False
    have e: "map_option elem (Some (map_prune (translate_element eng (Catalog ?c) lang)
                              (text_replaced eng (Catalog ?c)) m))
               = Some (translate_element eng (Catalog ?c) lang (elem m))"
      by simp
    show ?thesis
      unfolding Let_def m' if_not_P [OF False] e
      using catalog_content [where el = "elem m" and eng = eng and c = ?c and lang = lang]
            catalog_attrs [where el = "elem m" and eng = eng and c = ?c and lang = lang]
      by blast
  qed
qed

theorem translation_frame_witness:
  "map_option elem (node_at (elements (applyLanguage (ascii ''ar'') bilingual_app)) [0])
     = Some ((bilingual ''H1'' ''Welcome'' welcome_ar)\<lparr>content := Text welcome_ar\<rparr>)
   \<and> node_at (elements (applyLanguage (ascii ''ar'') bilingual_app)) [0, 0] = None
   \<and> map_option elem (node_at (elements (applyLanguage (ascii ''ar'') bilingual_app)) [1])
       = Some (bilingual ''DIV'' ''About us'' [])
   \<and> map_option elem (node_at (elements (applyLanguage (ascii ''ar'') bilingual_app)) [1, 0])
       = Some english_only
   \<and> map_option (\<lambda>n. content (elem n)) (node_at (page_elements (state_of
        (applyTranslations demo_engine the_translations (ascii ''ar'') keyed_page))) [0])
       = Some (Text (the (map_of translations_ar (ascii ''navAbout''))))
   \<and> node_at (page_elements (state_of
        (applyTranslations demo_engine the_translations (ascii ''ar'') keyed_page))) [0, 0] = None
   \<and> map_option (\<lambda>n. content (elem n)) (node_at (page_elements (state_of
        (applyTranslations demo_engine the_translations (ascii ''ar'') keyed_page))) [1])
       = Some (Text (ascii ''Footer''))
   \<and> map_option (\<lambda>n. content (elem n)) (node_at (page_elements (state_of
        (applyTranslations demo_engine the_translations (ascii ''ar'') keyed_page))) [1, 0])
       = Some (Text (the (map_of translations_ar (ascii ''navNews''))))"
proof -
  let ?h1 = "bilingual ''H1'' ''Welcome'' welcome_ar"
  let ?div = "bilingual ''DIV'' ''About us'' []"
  let ?about = "keyed ''navAbout'' ''About''"
  let ?news = "keyed ''navNews'' ''News''"
  let ?footer = "keyed ''footerNote'' ''Footer''"
  let ?ar = "ascii ''ar''"
  have e0: "node_at (elements bilingual_app) [0] = Some (Node ?h1 [Node english_only []])"
    and e00: "node_at (elements bilingual_app) [0, 0] = Some (Node english_only [])"
    and e1: "node_at (elements bilingual_app) [Suc 0] = Some (Node ?div [Node english_only []])"
    and e10: "node_at (elements bilingual_app) [Suc 0, 0] = Some (Node english_only [])"
    and a0: "around (elements bilingual_app) [0] = []"
    and a00: "around (elements bilingual_app) [0, 0] = [?h1]"
    and a1: "around (elements bilingual_app) [Suc 0] = []"
    and a10: "around (elements bilingual_app) [Suc 0, 0] = [?div]"
    by (simp_all add: bilingual_app_def)
  have b: "has_both (bilingual t en ar)" for t en ar
    by (simp add: has_both_def hasAttribute_def bilingual_def)
  have nb: "\<not> has_both english_only"
    by (simp add: has_both_def hasAttribute_def english_only_def)
  have a: "getAttribute (attrs (bilingual t en ar)) (ascii ''data-'' @ ascii ''ar'') = Some ar" for t en ar
    by (simp add: getAttribute_def bilingual_def ascii_def lower_def)
  have w: "welcome_ar \<noteq> []" by (simp add: welcome_ar_def)
  have tag: "tagName (bilingual t en ar) = t" for t en ar by (simp add: bilingual_def)
  have br: "\<not> js_includes welcome_ar (ascii ''<br>'')"
    by (simp add: welcome_ar_def ascii_def)
  have r1: "content_replaced ?ar ?h1"
    by (simp add: content_replaced_def b a w tag truthy_def)
  have r2: "\<not> content_replaced ?ar ?div"
    by (simp add: content_replaced_def a truthy_def)
  have k0: "node_at (page_elements keyed_page) [0] = Some (Node ?about [Node ?news []])"
    and k00: "node_at (page_elements keyed_page) [0, 0] = Some (Node ?news [])"
    and k1: "node_at (page_elements keyed_page) [Suc 0] = Some (Node ?footer [Node ?news []])"
    and k10: "node_at (page_elements keyed_page) [Suc 0, 0] = Some (Node ?news [])"
    and c0: "around (page_elements keyed_page) [0] = []"
    and c00: "around (page_elements keyed_page) [0, 0] = [?about]"
    and c1: "around (page_elements keyed_page) [Suc 0] = []"
    and c10: "around (page_elements keyed_page) [Suc 0, 0] = [?footer]"
    by (simp_all add: keyed_page_def)
  have ka: "attrs (keyed k t) (ascii ''data-i18n'') = Some (ascii k)"
    and kp: "attrs (keyed k t) (ascii ''data-placeholder-i18n'') = None"
    and kc: "content (keyed k t) = Text (ascii t)" for k t
    by (simp_all add: keyed_def)
  have m0: "\<exists>t. map_of translations_ar (ascii ''navAbout'') = Some t \<and> t \<noteq> []"
    by (simp add: translations_ar_def)
  have m2: "\<exists>t. map_of translations_ar (ascii ''navNews'') = Some t \<and> t \<noteq> []"
    by (simp add: translations_ar_def)
  have m1: "map_of translations_ar (ascii ''footerNote'') = None"
    by (simp add: translations_ar_def)
  have p1: "ascii ''footerNote'' \<notin> set object_prototype_names"
    by (simp add: object_prototype_names_def)
  have tr: "tr_ar the_translations = translations_ar" by (simp add: the_translations_def)
  have t1: "text_replaced demo_engine (Catalog translations_ar) ?about"
    using m0 by (auto simp: text_replaced_def ka dict_get_Catalog)
  have t2: "\<not> text_replaced demo_engine (Catalog translations_ar) ?footer"
    by (simp add: text_replaced_def ka dict_get_Catalog m1 p1)
  from translation_frame [where st = bilingual_app and lang = ?ar and p = "[0]"
      and n = "Node ?h1 [Node english_only []]"
      and pg = keyed_page and eng = demo_engine and tr = the_translations and q = "[0]"
      and m = "Node ?about [Node ?news []]"]
  have 1: "map_option elem (node_at (elements (applyLanguage ?ar bilingual_app)) [0])
             = Some (?h1\<lparr>content := Text welcome_ar\<rparr>)"
    and 5: "map_option (\<lambda>n. content (elem n)) (node_at (page_elements (state_of
              (applyTranslations demo_engine the_translations ?ar keyed_page))) [0])
             = Some (Text (the (map_of translations_ar (ascii ''navAbout''))))"
    using m0 by (auto simp: Let_def e0 a0 b a w tag br truthy_def k0 c0 ka kp kc tr simp del: node_at.simps around.simps)
  from translation_frame [where st = bilingual_app and lang = ?ar and p = "[0, 0]"
      and n = "Node english_only []"
      and pg = keyed_page and eng = demo_engine and tr = the_translations and q = "[0, 0]"
      and m = "Node ?news []"]
  have 2: "node_at (elements (applyLanguage ?ar bilingual_app)) [0, 0] = None"
    and 6: "node_at (page_elements (state_of
              (applyTranslations demo_engine the_translations ?ar keyed_page))) [0, 0] = None"
    by (simp_all add: Let_def e00 a00 r1 k00 c00 tr t1 del: node_at.simps around.simps)
  from translation_frame [where st = bilingual_app and lang = ?ar and p = "[1]"
      and n = "Node ?div [Node english_only []]"
      and pg = keyed_page and eng = demo_engine and tr = the_translations and q = "[1]"
      and m = "Node ?footer [Node ?news []]"]
  have 3: "map_option elem (node_at (elements (applyLanguage ?ar bilingual_app)) [1]) = Some ?div"
    and 7: "map_option (\<lambda>n. content (elem n)) (node_at (page_elements (state_of
              (applyTranslations demo_engine the_translations ?ar keyed_page))) [1])
             = Some (Text (ascii ''Footer''))"
    by (auto simp: Let_def e1 a1 b a truthy_def k1 c1 ka kp kc tr m1 p1 simp del: node_at.simps around.simps)
  from translation_frame [where st = bilingual_app and lang = ?ar and p = "[1, 0]"
      and n = "Node english_only []"
      and pg = keyed_page and eng = demo_engine and tr = the_translations and q = "[1, 0]"
      and m = "Node ?news []"]
  have 4: "map_option elem (node_at (elements (applyLanguage ?ar bilingual_app)) [1, 0])
             = Some english_only"
    and 8: "map_option (\<lambda>n. content (elem n)) (node_at (page_elements (state_of
              (applyTranslations demo_engine the_translations ?ar keyed_page))) [1, 0])
             = Some (Text (the (map_of translations_ar (ascii ''navNews''))))"
    using m2 by (auto simp: Let_def e10 a10 r2 nb k10 c10 ka kp kc tr t2 simp del: node_at.simps around.simps)
  from 1 2 3 4 5 6 7 8 show ?thesis by simp
qed

text \<open>The same two documents after \<open>ar\<close> has been applied, computed from the definitions:
  the heading and the first link have their Arabic text and have lost the node inside
  them; the nodes without an Arabic text are as they were, and so is what is inside them,
  but for the translated link.\<close>

lemma nested_nodes_after_apply:
  "elements (applyLanguage (ascii ''ar'') bilingual_app)
     = [Node ((bilingual ''H1'' ''Welcome'' welcome_ar)\<lparr>content := Text welcome_ar\<rparr>) [],
        Node (bilingual ''DIV'' ''About us'' []) [Node english_only []]]
   \<and> page_elements (state_of
        (applyTranslations demo_engine the_translations (ascii ''ar'') keyed_page))
     = [Node ((keyed ''navAbout'' ''About'')
               \<lparr>content := Text (the (map_of translations_ar (ascii ''navAbout'')))\<rparr>) [],
        Node (keyed ''footerNote'' ''Footer'')
          [Node ((keyed ''navNews'' ''News'')
                  \<lparr>content := Text (the (map_of translations_ar (ascii ''navNews'')))\<rparr>) []]]"
proof -
  have b: "has_both (bilingual t en ar)" for t en ar
    by (simp add: has_both_def hasAttribute_def bilingual_def)
  have nb: "\<not> has_both english_only"
    by (simp add: has_both_def hasAttribute_def english_only_def)
  have a: "getAttribute (attrs (bilingual t en ar)) (ascii ''data-'' @ ascii ''ar'') = Some ar" for t en ar
    by (simp add: getAttribute_def bilingual_def ascii_def lower_def)
  have w: "welcome_ar \<noteq> []" and br: "\<not> js_includes welcome_ar (ascii ''<br>'')"
    by (simp_all add: welcome_ar_def ascii_def)
  have tag: "tagName (bilingual t en ar) = t" and sel: "\<not> in_select (bilingual t en ar)" for t en ar
    by (simp_all add: bilingual_def)
  have 1: "elements (applyLanguage (ascii ''ar'') bilingual_app)
     = [Node ((bilingual ''H1'' ''Welcome'' welcome_ar)\<lparr>content := Text welcome_ar\<rparr>) [],
        Node (bilingual ''DIV'' ''About us'' []) [Node english_only []]]"
    by (simp add: lm_defs bilingual_app_def update_element_def setter_defs b nb a w br tag sel
          Let_def)
  have ka: "attrs (keyed k t) (ascii ''data-i18n'') = Some (ascii k)"
    and kp: "attrs (keyed k t) (ascii ''data-placeholder-i18n'') = None"
    and ks: "\<not> in_lang_selector (keyed k t)" for k t
    by (simp_all add: keyed_def)
  have d: "select_dict the_translations (ascii ''ar'') = Catalog translations_ar"
    by (simp add: select_dict_supported the_translations_def)
  have g0: "dict_get demo_engine (Catalog translations_ar) (ascii ''navAbout'')
              = Some (the (map_of translations_ar (ascii ''navAbout'')))"
    and g1: "dict_get demo_engine (Catalog translations_ar) (ascii ''navNews'')
              = Some (the (map_of translations_ar (ascii ''navNews'')))"
    and g2: "dict_get demo_engine (Catalog translations_ar) (ascii ''footerNote'') = None"
    by (simp_all add: dict_get_Catalog translations_ar_def object_prototype_names_def)
  have 2: "page_elements (state_of
        (applyTranslations demo_engine the_translations (ascii ''ar'') keyed_page))
     = [Node ((keyed ''navAbout'' ''About'')
               \<lparr>content := Text (the (map_of translations_ar (ascii ''navAbout'')))\<rparr>) [],
        Node (keyed ''footerNote'' ''Footer'')
          [Node ((keyed ''navNews'' ''News'')
                  \<lparr>content := Text (the (map_of translations_ar (ascii ''navNews'')))\<rparr>) []]]"
    by (simp add: applyTranslations_def state_of_def setItem_def Let_def keyed_page_def
          demo_page_def d translate_text_def translate_placeholder_def setter_defs
          hasAttribute_def ka kp ks g0 g1 g2)
  from 1 2 show ?thesis by simp
qed

text \<open>A key that names a member of \<open>Object.prototype\<close> is not in the catalog, yet
  \<open>dict[key]\<close> is that member and the element's content is overwritten with its text.\<close>

lemma inherited_key_overwrites_content:
  "map_of (tr_en the_translations) (ascii ''toString'') = None
   \<and> page_elements (state_of (applyTranslations eng the_translations (ascii ''en'')
        (demo_page\<lparr>page_elements := [Node (keyed ''toString'' ''Tools'') []]\<rparr>)))
      = [Node ((keyed ''toString'' ''Tools'')\<lparr>content := Text (native_text eng (ascii ''toString''))\<rparr>) []]"
  by (simp add: applyTranslations_def state_of_def setItem_def Let_def
        select_dict_supported dict_get_Catalog keyed_def
        the_translations_def translations_en_def object_prototype_names_def demo_page_def
        highlight_button_def translate_placeholder_def translate_text_def setter_defs
        hasAttribute_def)

section \<open>The content loader\<close>

text \<open>
  C9. For a resource and a container that exists, when the fetch is rejected or the body
  is not JSON, \<open>fetchAndRender\<close> ends with the fixed error placeholder as the whole
  content of that container, has fetched the URL once, and has changed nothing else but
  the console: every other container holds what it held.
\<close>

theorem fetch_failure_renders_placeholder:
  assumes "containers p sel = Some old"
    and "respond url = NetworkError \<or> respond url = NotJson"
  shows "fetchAndRender respond url sel templateFn p
           = p\<lparr>page_console := page_console p @ [Error (ascii ''Failed to load '' @ ascii url)],
               containers := (containers p)(sel \<mapsto> error_placeholder),
               fetched := fetched p @ [url]\<rparr>
       \<and> containers (fetchAndRender respond url sel templateFn p) sel = Some error_placeholder
       \<and> (\<forall>other. other \<noteq> sel \<longrightarrow>
             containers (fetchAndRender respond url sel templateFn p) other = containers p other)
       \<and> fetched (fetchAndRender respond url sel templateFn p) = fetched p @ [url]"
  using assms by (auto simp: fetchAndRender_def Let_def)

theorem fetch_failure_renders_placeholder_witness:
  "containers (loadJSONContent events_down demo_template demo_template demo_page) ''#events-list''
     = Some error_placeholder
   \<and> containers (loadJSONContent events_down demo_template demo_template demo_page) ''#news-list''
     = Some (ascii ''<article></article>'')
   \<and> fetched (loadJSONContent events_down demo_template demo_template demo_page)
     = [''data/news.json'', ''data/events.json'']"
proof -
  let ?p1 = "fetchAndRender events_down ''data/news.json'' ''#news-list'' demo_template demo_page"
  have p1: "?p1 = demo_page\<lparr>fetched := [''data/news.json''],
                containers := (containers demo_page)(''#news-list'' \<mapsto> ascii ''<article></article>'')\<rparr>"
    by (simp add: fetchAndRender_def demo_page_def events_down_def render_def demo_template_def Let_def)
  have c: "containers ?p1 ''#events-list'' = Some []"
    unfolding p1 by (simp add: demo_page_def)
  have r: "events_down ''data/events.json'' = NetworkError \<or> events_down ''data/events.json'' = NotJson"
    by (simp add: events_down_def)
  from fetch_failure_renders_placeholder [where p = ?p1 and sel = "''#events-list''" and old = "[]"
      and respond = events_down and url = "''data/events.json''" and templateFn = demo_template,
      OF c r]
  have th: "containers (fetchAndRender events_down ''data/events.json'' ''#events-list''
                 demo_template ?p1) ''#events-list'' = Some error_placeholder"
    and other: "containers (fetchAndRender events_down ''data/events.json'' ''#events-list''
                 demo_template ?p1) ''#news-list'' = containers ?p1 ''#news-list''"
    and f: "fetched (fetchAndRender events_down ''data/events.json'' ''#events-list''
                 demo_template ?p1) = fetched ?p1 @ [''data/events.json'']"
    by simp_all
  have n1: "containers ?p1 ''#news-list'' = Some (ascii ''<article></article>'')"
    unfolding p1 by simp
  have f1: "fetched ?p1 = [''data/news.json'']"
    unfolding p1 by simp
  show ?thesis
    unfolding loadJSONContent_def using th other f n1 f1 by simp
qed

end
